theory Spec2Isabelle
  imports Main "HOL-Library.Word" "HOL-Library.Signed_Division"
begin

section \<open>Utilities (oracle\_utils.cpp)\<close>

text \<open>
  \<open>std::string\<close> is a byte string: \<open>string\<close> (a \<open>char list\<close>).
  \<open>idx_t\<close>, \<open>column_t\<close> and \<open>size_t\<close> values that are printed or added are
  64-bit words; \<open>int32_t\<close> fields are 32-bit words read with \<open>sint\<close>.
\<close>

type_synonym idx_t = "64 word"
type_synonym column_t = "64 word"

definition FormatOracleError :: "string \<Rightarrow> string \<Rightarrow> string" where
  "FormatOracleError context_str oracle_msg =
     ''Oracle error in '' @ context_str @ '': '' @ oracle_msg"

definition QuoteIdentifier :: "string \<Rightarrow> string" where
  "QuoteIdentifier nm = [CHR 0x22] @ nm @ [CHR 0x22]"

text \<open>
  \<open>std::toupper\<close> on an \<open>unsigned char\<close>, in the "C" locale the process starts in:
  the letters a..z go to A..Z, every other byte is unchanged.
\<close>

definition toupper :: "char \<Rightarrow> char" where
  "toupper c =
     (case map_of (zip ''abcdefghijklmnopqrstuvwxyz'' ''ABCDEFGHIJKLMNOPQRSTUVWXYZ'') c of
        Some u \<Rightarrow> u
      | None \<Rightarrow> c)"

definition ToUpper :: "string \<Rightarrow> string" where
  "ToUpper s = map toupper s"

text \<open>
  Decimal output of an unsigned integer, as \<open>operator<<\<close> of \<open>std::ostream\<close> prints an
  \<open>idx_t\<close>: most significant digit first, no sign, no padding.
\<close>

definition digit_char :: "nat \<Rightarrow> char" where
  "digit_char n = ''0123456789'' ! (n mod 10)"

function to_string_nat :: "nat \<Rightarrow> string" where
  "to_string_nat n =
     (if n < 10 then [digit_char n] else to_string_nat (n div 10) @ [digit_char n])"
  by pat_completeness auto
termination
  by (relation "measure id") auto

declare to_string_nat.simps [simp del]

definition put_idx :: "idx_t \<Rightarrow> string" where
  "put_idx n = to_string_nat (unat n)"

section \<open>Column descriptors and logical types (oracle\_type\_mapping.hpp)\<close>

record OracleColumnInfo =
  name :: string
  oracle_type_name :: string
  precision :: "32 word"
  scale :: "32 word"
  char_length :: "32 word"
  nullable :: bool

text \<open>
  The host's \<open>LogicalType\<close>: the type ids this repository constructs or switches on,
  \<open>DECIMAL\<close> with its \<open>uint8_t\<close> width and scale, and \<open>OTHER_TYPE\<close> for every
  other id of the host.
\<close>

datatype LogicalType =
    BOOLEAN | TINYINT | SMALLINT | INTEGER | BIGINT | HUGEINT | UBIGINT
  | FLOAT | DOUBLE | DECIMAL "8 word" "8 word"
  | VARCHAR | BLOB | DATE | TIMESTAMP | TIMESTAMP_TZ | INTERVAL
  | OTHER_TYPE nat

text \<open>
  \<open>OracleTypeMapping::ToDuckDBType\<close>. The comparisons are on \<open>int32_t\<close>;
  \<open>LogicalType::DECIMAL\<close> takes \<open>uint8_t\<close> arguments, so the call converts both
  \<open>int32_t\<close> fields to 8 bits.
\<close>

text \<open>
  The integer block of the NUMBER case returns from inside its \<open>if\<close> or falls through
  to the statements after it: \<open>None\<close> is the fall-through.
\<close>

definition number_integer_block :: "int \<Rightarrow> int \<Rightarrow> LogicalType option" where
  "number_integer_block p s =
     (if s = 0 \<or> s = - 127 then
        (if p \<le> 4 then Some SMALLINT
         else if p \<le> 9 then Some INTEGER
         else if p \<le> 18 then Some BIGINT
         else if p \<le> 38 then Some HUGEINT
         else None)
      else None)"

definition ToDuckDBType :: "OracleColumnInfo \<Rightarrow> LogicalType" where
  "ToDuckDBType col =
     (let ty = oracle_type_name col; p = sint (precision col); s = sint (scale col) in
      if ty = ''NUMBER'' then
        (if p = 0 \<and> s = - 127 then DOUBLE
         else (case number_integer_block p s of
                 Some t \<Rightarrow> t
               | None \<Rightarrow>
                   if p > 0 \<and> s \<ge> 0 then DECIMAL (ucast (precision col)) (ucast (scale col))
                   else DOUBLE))
      else if ty = ''VARCHAR2'' \<or> ty = ''NVARCHAR2'' \<or> ty = ''CHAR'' \<or> ty = ''NCHAR''
              \<or> ty = ''ROWID'' \<or> ty = ''CLOB'' \<or> ty = ''NCLOB'' then VARCHAR
      else if ty = ''DATE'' \<or> ty = ''TIMESTAMP''
              \<or> ty = ''TIMESTAMP WITH LOCAL TIME ZONE'' then TIMESTAMP
      else if ty = ''TIMESTAMP WITH TIME ZONE'' then TIMESTAMP_TZ
      else if ty = ''BLOB'' \<or> ty = ''RAW'' then BLOB
      else if ty = ''BINARY_FLOAT'' then FLOAT
      else if ty = ''BINARY_DOUBLE'' then DOUBLE
      else if ty = ''INTERVAL YEAR TO MONTH'' \<or> ty = ''INTERVAL DAY TO SECOND'' then INTERVAL
      else VARCHAR)"

section \<open>Connections and the pool (oracle\_connection.hpp, oracle\_connection.cpp)\<close>

text \<open>
  \<open>OracleConnectionParameters\<close>; its field \<open>schema\<close> is written \<open>default_schema\<close>
  here, the bind data below has a field of that name too.
\<close>

record OracleConnectionParameters =
  host :: string
  port :: int
  service_name :: string
  sid :: string
  tns_name :: string
  user :: string
  password :: string
  wallet_location :: string
  default_schema :: string
  read_only :: bool
  fetch_size :: int

text \<open>
  An \<open>OracleConnection\<close>: its parameters (\<open>params_\<close> in the source) and the
  native handle (\<open>conn_\<close>), a number naming the driver's connection. A name cannot end
  in an underscore here, so the private members are written with a prefix instead.
\<close>

record OracleConnection =
  c_params :: OracleConnectionParameters
  c_conn :: nat

definition GetParams :: "OracleConnection \<Rightarrow> OracleConnectionParameters" where
  "GetParams c = c_params c"

text \<open>
  \<open>OracleConnectionPool\<close>: the parameters for new connections (\<open>params_\<close>),
  the cap (\<open>max_connections_\<close>) and the vector of idle connections (\<open>pool_\<close>).
\<close>

record OracleConnectionPool =
  p_params :: OracleConnectionParameters
  p_max_connections :: nat
  p_pool :: "OracleConnection list"

definition OracleConnectionPool_new ::
  "OracleConnectionParameters \<Rightarrow> nat \<Rightarrow> OracleConnectionPool" where
  "OracleConnectionPool_new ps max_connections =
     \<lparr>p_params = ps, p_max_connections = max_connections, p_pool = []\<rparr>"

text \<open>The constructor with its default argument \<open>max_connections = 8\<close>.\<close>

definition OracleConnectionPool_default ::
  "OracleConnectionParameters \<Rightarrow> OracleConnectionPool" where
  "OracleConnectionPool_default ps = OracleConnectionPool_new ps 8"

text \<open>
  \<open>OracleConnection::Open\<close> reaches the driver and throws when the driver refuses the
  connection. The driver is the parameter \<open>Open\<close>: it gives the error message
  (\<open>Inl\<close>) or the new connection. \<open>Acquire\<close> returns what the caller gets and the
  pool after the call.
\<close>

type_synonym driver_open = "OracleConnectionParameters \<Rightarrow> string + OracleConnection"

definition Acquire ::
  "driver_open \<Rightarrow> OracleConnectionPool \<Rightarrow> (string + OracleConnection) \<times> OracleConnectionPool" where
  "Acquire Open p =
     (if p_pool p \<noteq> [] then (Inr (last (p_pool p)), p\<lparr>p_pool := butlast (p_pool p)\<rparr>)
      else (Open (p_params p), p))"

definition Release :: "OracleConnectionPool \<Rightarrow> OracleConnection \<Rightarrow> OracleConnectionPool" where
  "Release p c =
     (if length (p_pool p) < p_max_connections p then p\<lparr>p_pool := p_pool p @ [c]\<rparr> else p)"

definition ClearCache :: "OracleConnectionPool \<Rightarrow> OracleConnectionPool" where
  "ClearCache p = p\<lparr>p_pool := []\<rparr>"

text \<open>
  A client's call on the pool, and a sequence of calls run in order. Each call of the
  source holds the pool's mutex from its first statement to its last, so concurrent calls
  take effect one after the other.
\<close>

datatype pool_call = CallAcquire | CallRelease OracleConnection | CallClearCache

fun pool_step :: "driver_open \<Rightarrow> OracleConnectionPool \<Rightarrow> pool_call \<Rightarrow> OracleConnectionPool" where
  "pool_step Open p CallAcquire = snd (Acquire Open p)"
| "pool_step Open p (CallRelease c) = Release p c"
| "pool_step Open p CallClearCache = ClearCache p"

definition pool_run ::
  "driver_open \<Rightarrow> pool_call list \<Rightarrow> OracleConnectionPool \<Rightarrow> OracleConnectionPool" where
  "pool_run Open calls p = foldl (pool_step Open) p calls"

section \<open>Scan bind data and the SELECT builder (oracle\_scan.hpp, oracle\_scan.cpp)\<close>

text \<open>
  The host's sentinels: \<open>COLUMN_IDENTIFIER_ROW_ID\<close> is \<open>(column_t)-1\<close> and
  \<open>DConstants::INVALID_INDEX\<close> is \<open>(idx_t)-1\<close>. Both are declared in the host's
  headers.
\<close>

definition COLUMN_IDENTIFIER_ROW_ID :: column_t where
  "COLUMN_IDENTIFIER_ROW_ID = - 1"

definition INVALID_INDEX :: idx_t where
  "INVALID_INDEX = - 1"

text \<open>
  \<open>OracleScanBindData\<close>. The pool is shared through a pointer and is passed beside the
  bind data where a function uses it.
\<close>

record OracleScanBindData =
  schema :: string
  table :: string
  all_columns :: "OracleColumnInfo list"
  all_types :: "LogicalType list"
  filters :: "string list"
  column_ids :: "column_t list"
  limit :: idx_t
  offset :: idx_t
  oracle_major_version :: int

definition Equals :: "OracleScanBindData \<Rightarrow> OracleScanBindData \<Rightarrow> bool" where
  "Equals this other = (schema this = schema other \<and> table this = table other)"

text \<open>
  The projection loop of \<open>BuildSelectQuery\<close>: the state is the stream written so far and
  the flag \<open>first\<close>.
\<close>

fun projection_loop ::
  "OracleColumnInfo list \<Rightarrow> column_t list \<Rightarrow> string \<times> bool \<Rightarrow> string \<times> bool" where
  "projection_loop cols [] (oss, first) = (oss, first)"
| "projection_loop cols (cid # cids) (oss, first) =
     (if cid = COLUMN_IDENTIFIER_ROW_ID then
        projection_loop cols cids
          ((if \<not> first then oss @ '', '' else oss) @ ''ROWID'', False)
      else if unat cid < length cols then
        projection_loop cols cids
          ((if \<not> first then oss @ '', '' else oss) @ QuoteIdentifier (name (cols ! unat cid)), False)
      else projection_loop cols cids (oss, first))"

text \<open>The WHERE loop: \<open>i\<close> is the index of the next filter.\<close>

fun where_loop :: "string list \<Rightarrow> nat \<Rightarrow> string \<Rightarrow> string" where
  "where_loop [] i oss = oss"
| "where_loop (f # fs) i oss =
     where_loop fs (Suc i) ((if i > 0 then oss @ '' AND '' else oss) @ f)"

definition BuildSelectQuery :: "OracleScanBindData \<Rightarrow> string" where
  "BuildSelectQuery bd =
     (let oss = ''SELECT '';
          oss = (if column_ids bd = [] then oss @ ''*''
                 else (case projection_loop (all_columns bd) (column_ids bd) (oss, True) of
                         (oss, first) \<Rightarrow> if first then oss @ ''*'' else oss));
          oss = oss @ '' FROM '' @ QuoteIdentifier (schema bd) @ ''.'' @ QuoteIdentifier (table bd);
          oss = (if filters bd \<noteq> [] then where_loop (filters bd) 0 (oss @ '' WHERE '') else oss)
      in if limit bd \<noteq> INVALID_INDEX then
           (if oracle_major_version bd \<ge> 12 then
              (let oss = (if offset bd > 0 then oss @ '' OFFSET '' @ put_idx (offset bd) @ '' ROWS''
                          else oss)
               in oss @ '' FETCH FIRST '' @ put_idx (limit bd) @ '' ROWS ONLY'')
            else ''SELECT * FROM (SELECT ROWNUM rn__, t__.* FROM ('' @ oss
                   @ '') t__ WHERE ROWNUM <= '' @ put_idx (offset bd + limit bd) @ '')''
                   @ '' WHERE rn__ > '' @ put_idx (offset bd))
         else oss)"

text \<open>
  The builder as the specification words it, to be compared with \<open>BuildSelectQuery\<close>:
  the SELECT list rendered item by item and joined, then FROM, WHERE and the limit form.
\<close>

fun join_with :: "string \<Rightarrow> string list \<Rightarrow> string" where
  "join_with sep [] = []"
| "join_with sep [x] = x"
| "join_with sep (x # y # ys) = x @ sep @ join_with sep (y # ys)"

definition spec_select_items :: "OracleScanBindData \<Rightarrow> string list" where
  "spec_select_items bd =
     concat (map (\<lambda>cid. if cid = COLUMN_IDENTIFIER_ROW_ID then [''ROWID'']
                         else if unat cid < length (all_columns bd)
                              then [QuoteIdentifier (name (all_columns bd ! unat cid))]
                              else [])
                 (column_ids bd))"

definition spec_select_list :: "OracleScanBindData \<Rightarrow> string" where
  "spec_select_list bd =
     (if column_ids bd = [] then ''*''
      else if spec_select_items bd = [] then ''*''
      else join_with '', '' (spec_select_items bd))"

definition spec_inner_query :: "OracleScanBindData \<Rightarrow> string" where
  "spec_inner_query bd =
     ''SELECT '' @ spec_select_list bd
       @ '' FROM '' @ QuoteIdentifier (schema bd) @ ''.'' @ QuoteIdentifier (table bd)
       @ (if filters bd = [] then '''' else '' WHERE '' @ join_with '' AND '' (filters bd))"

definition spec_select_query :: "OracleScanBindData \<Rightarrow> string" where
  "spec_select_query bd =
     (if limit bd = INVALID_INDEX then spec_inner_query bd
      else if oracle_major_version bd \<ge> 12 then
        spec_inner_query bd
          @ (if offset bd > 0 then '' OFFSET '' @ put_idx (offset bd) @ '' ROWS'' else '''')
          @ '' FETCH FIRST '' @ put_idx (limit bd) @ '' ROWS ONLY''
      else ''SELECT * FROM (SELECT ROWNUM rn__, t__.* FROM ('' @ spec_inner_query bd
             @ '') t__ WHERE ROWNUM <= '' @ put_idx (offset bd + limit bd)
             @ '') WHERE rn__ > '' @ put_idx (offset bd))"

text \<open>Scenario S1: table HR.EMPLOYEES, projection [0, 1], limit 10, offset 0, version 12.\<close>

definition S1_columns :: "OracleColumnInfo list" where
  "S1_columns =
     [\<lparr>name = ''EMP_ID'', oracle_type_name = ''NUMBER'', precision = 9, scale = 0,
       char_length = 0, nullable = False\<rparr>,
      \<lparr>name = ''NAME'', oracle_type_name = ''VARCHAR2'', precision = 0, scale = - 127,
       char_length = 50, nullable = True\<rparr>]"

definition S1_bind_data :: OracleScanBindData where
  "S1_bind_data =
     \<lparr>schema = ''HR'', table = ''EMPLOYEES'', all_columns = S1_columns,
      all_types = map ToDuckDBType S1_columns, filters = [], column_ids = [0, 1],
      limit = 10, offset = 0, oracle_major_version = 12\<rparr>"

section \<open>Driver cells and host values (dpi.h, oracle\_type\_mapping.cpp)\<close>

text \<open>
  The driver's structures, as its header \<open>dpi.h\<close> declares them. A \<open>dpiData\<close> cell is
  a null flag and a union; the union is a record of its views, one field for each member
  the source reads. \<open>double\<close> and \<open>float\<close> stay abstract: they are the type
  parameters \<open>'d\<close> and \<open>'f\<close>. A LOB locator is a number.
\<close>

record dpiTimestamp =
  year :: "16 word"
  month :: "8 word"
  day :: "8 word"
  hour :: "8 word"
  minute :: "8 word"
  second :: "8 word"
  fsecond :: "32 word"
  tzHourOffset :: "8 word"
  tzMinuteOffset :: "8 word"

record dpiIntervalDS =
  days :: "32 word"
  hours :: "32 word"
  minutes :: "32 word"
  seconds :: "32 word"
  fseconds :: "32 word"

record dpiIntervalYM =
  years :: "32 word"
  months :: "32 word"

record ('d, 'f) dpiDataBuffer =
  asBoolean :: "32 word"
  asInt64 :: "64 word"
  asUint64 :: "64 word"
  asFloat :: 'f
  asDouble :: 'd
  asBytes :: string
  asTimestamp :: dpiTimestamp
  asIntervalDS :: dpiIntervalDS
  asIntervalYM :: dpiIntervalYM
  asLOB :: nat

text \<open>The member \<open>value\<close> of \<open>dpiData\<close> is the field \<open>buffer\<close>.\<close>

record ('d, 'f) dpiData =
  isNull :: bool
  buffer :: "('d, 'f) dpiDataBuffer"

type_synonym dpiNativeTypeNum = "32 word"

definition DPI_NATIVE_TYPE_INT64 :: dpiNativeTypeNum where "DPI_NATIVE_TYPE_INT64 = 3000"
definition DPI_NATIVE_TYPE_UINT64 :: dpiNativeTypeNum where "DPI_NATIVE_TYPE_UINT64 = 3001"
definition DPI_NATIVE_TYPE_FLOAT :: dpiNativeTypeNum where "DPI_NATIVE_TYPE_FLOAT = 3002"
definition DPI_NATIVE_TYPE_DOUBLE :: dpiNativeTypeNum where "DPI_NATIVE_TYPE_DOUBLE = 3003"
definition DPI_NATIVE_TYPE_BYTES :: dpiNativeTypeNum where "DPI_NATIVE_TYPE_BYTES = 3004"
definition DPI_NATIVE_TYPE_TIMESTAMP :: dpiNativeTypeNum where "DPI_NATIVE_TYPE_TIMESTAMP = 3005"
definition DPI_NATIVE_TYPE_INTERVAL_DS :: dpiNativeTypeNum where "DPI_NATIVE_TYPE_INTERVAL_DS = 3006"
definition DPI_NATIVE_TYPE_INTERVAL_YM :: dpiNativeTypeNum where "DPI_NATIVE_TYPE_INTERVAL_YM = 3007"
definition DPI_NATIVE_TYPE_LOB :: dpiNativeTypeNum where "DPI_NATIVE_TYPE_LOB = 3008"
definition DPI_NATIVE_TYPE_BOOLEAN :: dpiNativeTypeNum where "DPI_NATIVE_TYPE_BOOLEAN = 3011"

text \<open>
  The host's \<open>interval_t\<close> (months, days, micros) and \<open>Value\<close>. \<open>Value_NULL t\<close> is
  \<open>Value(t)\<close>, the null of type \<open>t\<close>; the other constructors are the factory functions
  of the host with the payload they store. \<open>Value_VARCHAR s\<close> is \<open>Value(s)\<close>.
\<close>

datatype interval_t = Interval_t "32 word" "32 word" "64 word"

datatype ('d, 'f) Value =
    Value_NULL LogicalType
  | Value_BOOLEAN bool
  | Value_TINYINT "8 word"
  | Value_SMALLINT "16 word"
  | Value_INTEGER "32 word"
  | Value_BIGINT "64 word"
  | Value_UBIGINT "64 word"
  | Value_FLOAT 'f
  | Value_DOUBLE 'd
  | Value_DECIMAL "64 word" "8 word" "8 word"
  | Value_VARCHAR string
  | Value_BLOB string
  | Value_DATE "32 word"
  | Value_TIMESTAMP "64 word"
  | Value_TIMESTAMPTZ "64 word"
  | Value_INTERVAL interval_t
  | Value_OTHER LogicalType nat

fun Value_type :: "('d, 'f) Value \<Rightarrow> LogicalType" where
  "Value_type (Value_NULL t) = t"
| "Value_type (Value_BOOLEAN b) = BOOLEAN"
| "Value_type (Value_TINYINT v) = TINYINT"
| "Value_type (Value_SMALLINT v) = SMALLINT"
| "Value_type (Value_INTEGER v) = INTEGER"
| "Value_type (Value_BIGINT v) = BIGINT"
| "Value_type (Value_UBIGINT v) = UBIGINT"
| "Value_type (Value_FLOAT v) = FLOAT"
| "Value_type (Value_DOUBLE v) = DOUBLE"
| "Value_type (Value_DECIMAL v w s) = DECIMAL w s"
| "Value_type (Value_VARCHAR v) = VARCHAR"
| "Value_type (Value_BLOB v) = BLOB"
| "Value_type (Value_DATE v) = DATE"
| "Value_type (Value_TIMESTAMP v) = TIMESTAMP"
| "Value_type (Value_TIMESTAMPTZ v) = TIMESTAMP_TZ"
| "Value_type (Value_INTERVAL v) = INTERVAL"
| "Value_type (Value_OTHER t v) = t"

fun IsNull :: "('d, 'f) Value \<Rightarrow> bool" where
  "IsNull (Value_NULL t) = True"
| "IsNull v = False"

text \<open>
  The C library's \<open>struct tm\<close> (the fields \<open>ToDuckDBValue\<close> sets; the others stay 0).
  The fields are C \<open>int\<close>s; the values stored here come from 8-bit and 16-bit fields, so
  they are kept as integers.
\<close>

record tm =
  tm_sec :: int
  tm_min :: int
  tm_hour :: int
  tm_mday :: int
  tm_mon :: int
  tm_year :: int
  tm_isdst :: int

text \<open>
  What \<open>ToDuckDBValue\<close> and \<open>ConstantToSQL\<close> call outside this repository: the C
  library's \<open>mktime\<close> (seconds since the epoch of a broken-down time read in the
  process's local time zone), the C++ conversions and functions on \<open>double\<close> and
  \<open>float\<close>, the driver's LOB calls (\<open>None\<close> when the call fails and writes nothing),
  and the host's date and time conversions. They are the fields of one record, passed to
  the functions that use them.
\<close>

record ('d, 'f) host =
  mktime :: "tm \<Rightarrow> int"
  double_to_float :: "'d \<Rightarrow> 'f"
  double_to_int64 :: "'d \<Rightarrow> 64 word"
  double_to_int32 :: "'d \<Rightarrow> 32 word"
  round_times_pow10 :: "'d \<Rightarrow> 8 word \<Rightarrow> 'd"
  dpiLob_getSize :: "nat \<Rightarrow> 64 word option"
  dpiLob_readBytes :: "nat \<Rightarrow> 64 word \<Rightarrow> 64 word \<Rightarrow> string option"
  to_string_float :: "'f \<Rightarrow> string"
  to_string_double :: "'d \<Rightarrow> string"
  Date_Convert :: "32 word \<Rightarrow> int \<times> int \<times> int"
  Timestamp_GetDate :: "64 word \<Rightarrow> 32 word"
  Timestamp_GetTime :: "64 word \<Rightarrow> 64 word"
  Time_Convert :: "64 word \<Rightarrow> int \<times> int \<times> int \<times> int"

text \<open>The timestamp case of \<open>ToDuckDBValue\<close>.\<close>

definition timestamp_tm :: "dpiTimestamp \<Rightarrow> tm" where
  "timestamp_tm ts =
     \<lparr>tm_sec = uint (second ts), tm_min = uint (minute ts), tm_hour = uint (hour ts),
      tm_mday = uint (day ts), tm_mon = uint (month ts) - 1, tm_year = sint (year ts) - 1900,
      tm_isdst = - 1\<rparr>"

definition timestamp_us :: "('d, 'f) host \<Rightarrow> dpiTimestamp \<Rightarrow> 64 word" where
  "timestamp_us h ts =
     word_of_int (mktime h (timestamp_tm ts)) * 1000000 + ucast (fsecond ts div 1000)"

definition tz_offset_sec :: "dpiTimestamp \<Rightarrow> 32 word" where
  "tz_offset_sec ts =
     (scast (tzHourOffset ts) * 60 + scast (tzMinuteOffset ts)) * 60"

definition ToDuckDBValue ::
  "('d, 'f) host \<Rightarrow> ('d, 'f) dpiData \<Rightarrow> dpiNativeTypeNum \<Rightarrow> LogicalType \<Rightarrow> ('d, 'f) Value" where
  "ToDuckDBValue h data native_type target_type =
     (let v = buffer data in
      if isNull data then Value_NULL target_type
      else if native_type = DPI_NATIVE_TYPE_DOUBLE then
        (case target_type of
           FLOAT \<Rightarrow> Value_FLOAT (double_to_float h (asDouble v))
         | DOUBLE \<Rightarrow> Value_DOUBLE (asDouble v)
         | DECIMAL width_d scale_d \<Rightarrow>
             Value_DECIMAL (double_to_int64 h (round_times_pow10 h (asDouble v) scale_d))
               width_d scale_d
         | BIGINT \<Rightarrow> Value_BIGINT (double_to_int64 h (asDouble v))
         | INTEGER \<Rightarrow> Value_INTEGER (double_to_int32 h (asDouble v))
         | _ \<Rightarrow> Value_DOUBLE (asDouble v))
      else if native_type = DPI_NATIVE_TYPE_FLOAT then Value_FLOAT (asFloat v)
      else if native_type = DPI_NATIVE_TYPE_INT64 then
        (case target_type of
           BIGINT \<Rightarrow> Value_BIGINT (asInt64 v)
         | INTEGER \<Rightarrow> Value_INTEGER (ucast (asInt64 v))
         | SMALLINT \<Rightarrow> Value_SMALLINT (ucast (asInt64 v))
         | _ \<Rightarrow> Value_BIGINT (asInt64 v))
      else if native_type = DPI_NATIVE_TYPE_UINT64 then Value_UBIGINT (asUint64 v)
      else if native_type = DPI_NATIVE_TYPE_BYTES then
        (if target_type = BLOB then Value_BLOB (asBytes v) else Value_VARCHAR (asBytes v))
      else if native_type = DPI_NATIVE_TYPE_TIMESTAMP then
        (let ts = asTimestamp v; us = timestamp_us h ts in
         if target_type = TIMESTAMP_TZ
         then Value_TIMESTAMPTZ (us - scast (tz_offset_sec ts) * 1000000)
         else Value_TIMESTAMP us)
      else if native_type = DPI_NATIVE_TYPE_INTERVAL_YM then
        Value_INTERVAL
          (Interval_t (years (asIntervalYM v) * 12 + months (asIntervalYM v)) 0 0)
      else if native_type = DPI_NATIVE_TYPE_INTERVAL_DS then
        (let ids = asIntervalDS v in
         Value_INTERVAL
           (Interval_t 0 (days ids)
              (scast (hours ids) * 3600000000 + scast (minutes ids) * 60000000
                 + scast (seconds ids) * 1000000
                 + scast (word_of_int (sint (fseconds ids) sdiv 1000) :: 32 word))))
      else if native_type = DPI_NATIVE_TYPE_BOOLEAN then Value_BOOLEAN (asBoolean v \<noteq> 0)
      else if native_type = DPI_NATIVE_TYPE_LOB then
        (let lob_size = (case dpiLob_getSize h (asLOB v) of None \<Rightarrow> 0 | Some n \<Rightarrow> n) in
         if lob_size = 0 then
           (if target_type = BLOB then Value_BLOB [] else Value_VARCHAR [])
         else
           (let buf = (case dpiLob_readBytes h (asLOB v) 1 lob_size of
                         None \<Rightarrow> replicate (unat lob_size) (CHR 0x00)
                       | Some bytes \<Rightarrow> bytes)
            in if target_type = BLOB then Value_BLOB buf else Value_VARCHAR buf))
      else Value_NULL target_type)"

text \<open>
  The native type numbers \<open>ToDuckDBValue\<close> has a case for.
\<close>

definition recognized_native_types :: "dpiNativeTypeNum list" where
  "recognized_native_types =
     [DPI_NATIVE_TYPE_DOUBLE, DPI_NATIVE_TYPE_FLOAT, DPI_NATIVE_TYPE_INT64,
      DPI_NATIVE_TYPE_UINT64, DPI_NATIVE_TYPE_BYTES, DPI_NATIVE_TYPE_TIMESTAMP,
      DPI_NATIVE_TYPE_INTERVAL_YM, DPI_NATIVE_TYPE_INTERVAL_DS, DPI_NATIVE_TYPE_BOOLEAN,
      DPI_NATIVE_TYPE_LOB]"

text \<open>
  Seconds since the epoch of a civil date and time read as UTC (the proleptic Gregorian
  calendar, days counted from 1970-01-01), and \<open>mktime\<close> in a time zone that is a fixed
  number of seconds east of UTC, with no daylight saving: local time is UTC plus the
  offset, so the instant is the UTC reading minus the offset. \<open>tm_mon\<close> counts from 0
  and \<open>tm_year\<close> from 1900.
\<close>

definition days_from_civil :: "int \<Rightarrow> int \<Rightarrow> int \<Rightarrow> int" where
  "days_from_civil y m d =
     (let y' = (if m \<le> 2 then y - 1 else y);
          era = y' div 400;
          yoe = y' - era * 400;
          doy = (153 * (if m > 2 then m - 3 else m + 9) + 2) div 5 + d - 1;
          doe = yoe * 365 + yoe div 4 - yoe div 100 + doy
      in era * 146097 + doe - 719468)"

definition utc_seconds :: "tm \<Rightarrow> int" where
  "utc_seconds t =
     days_from_civil (tm_year t + 1900) (tm_mon t + 1) (tm_mday t) * 86400
       + tm_hour t * 3600 + tm_min t * 60 + tm_sec t"

definition mktime_fixed_zone :: "int \<Rightarrow> tm \<Rightarrow> int" where
  "mktime_fixed_zone east_seconds t = utc_seconds t - east_seconds"

section \<open>Statements on a connection (oracle\_connection.cpp)\<close>

text \<open>
  What the connection asks of the driver and what the driver answers. A request is the
  SQL text handed to \<open>dpiConn_prepareStmt\<close> and the fetch array size, when the caller
  sets one before executing. The answer holds the driver's message when preparing or
  executing fails, the number of result columns, and the rows the fetch loop reads before
  \<open>dpiStmt_fetch\<close> reports no row or an error (the loops of the source stop the same way
  on both). A row gives, for a position counted from 1, the native type and the cell that
  \<open>dpiStmt_getQueryValue\<close> returns. The database is the function from requests to
  answers.
\<close>

record stmt_request =
  sql_text :: string
  fetch_array_size :: "32 word option"

type_synonym ('d, 'f) row = "nat \<Rightarrow> dpiNativeTypeNum \<times> ('d, 'f) dpiData"

record ('d, 'f) stmt_answer =
  prepare_error :: "string option"
  execute_error :: "string option"
  num_cols :: "32 word"
  fetched :: "('d, 'f) row list"

type_synonym ('d, 'f) database = "stmt_request \<Rightarrow> ('d, 'f) stmt_answer"

text \<open>\<open>OracleConnection::GetColumns\<close>: the SQL text, one row, the fetch loop, the call.\<close>

definition GetColumns_sql :: "string \<Rightarrow> string \<Rightarrow> string" where
  "GetColumns_sql schema_name table_name =
     ''SELECT COLUMN_NAME, DATA_TYPE, DATA_PRECISION, DATA_SCALE, ''
     @ ''       CHAR_LENGTH, NULLABLE ''
     @ ''FROM ALL_TAB_COLUMNS ''
     @ ''WHERE OWNER = '' @ [CHR 0x27] @ ToUpper schema_name @ [CHR 0x27] @ '' ''
     @ ''  AND TABLE_NAME = '' @ [CHR 0x27] @ ToUpper table_name @ [CHR 0x27] @ '' ''
     @ ''ORDER BY COLUMN_ID''"

definition GetColumns_request :: "string \<Rightarrow> string \<Rightarrow> stmt_request" where
  "GetColumns_request schema_name table_name =
     \<lparr>sql_text = GetColumns_sql schema_name table_name, fetch_array_size = None\<rparr>"

definition column_of_row :: "('d, 'f) host \<Rightarrow> ('d, 'f) row \<Rightarrow> OracleColumnInfo" where
  "column_of_row h r =
     \<lparr>name = asBytes (buffer (snd (r 1))),
      oracle_type_name = asBytes (buffer (snd (r 2))),
      precision = (if isNull (snd (r 3)) then 0
                   else double_to_int32 h (asDouble (buffer (snd (r 3))))),
      scale = (if isNull (snd (r 4)) then - 127
               else double_to_int32 h (asDouble (buffer (snd (r 4))))),
      char_length = (if isNull (snd (r 5)) then 0
                     else double_to_int32 h (asDouble (buffer (snd (r 5))))),
      nullable = (asBytes (buffer (snd (r 6))) = ''Y'')\<rparr>"

fun columns_loop ::
  "('d, 'f) host \<Rightarrow> ('d, 'f) row list \<Rightarrow> OracleColumnInfo list \<Rightarrow> OracleColumnInfo list" where
  "columns_loop h [] columns = columns"
| "columns_loop h (r # rs) columns = columns_loop h rs (columns @ [column_of_row h r])"

definition GetColumns ::
  "('d, 'f) host \<Rightarrow> ('d, 'f) database \<Rightarrow> string \<Rightarrow> string \<Rightarrow> string + OracleColumnInfo list" where
  "GetColumns h db schema_name table_name =
     (let stmt = db (GetColumns_request schema_name table_name) in
      case prepare_error stmt of
        Some msg \<Rightarrow> Inl (FormatOracleError ''GetColumns::prepareStmt'' msg)
      | None \<Rightarrow>
          (case execute_error stmt of
             Some msg \<Rightarrow> Inl (FormatOracleError ''GetColumns::execute'' msg)
           | None \<Rightarrow> Inr (columns_loop h (fetched stmt) [])))"

text \<open>
  The dictionary query as the specification words it, with its two placeholders, to be
  compared with \<open>GetColumns_sql\<close>.
\<close>

definition spec_list_columns_sql :: string where
  "spec_list_columns_sql =
     ''SELECT COLUMN_NAME, DATA_TYPE, DATA_PRECISION, DATA_SCALE, CHAR_LENGTH, NULLABLE ''
     @ ''FROM ALL_TAB_COLUMNS WHERE OWNER = :schema AND TABLE_NAME = :table ''
     @ ''ORDER BY COLUMN_ID''"

text \<open>
  A string literal as the specification words it for emitted SQL: single-quoted, with
  every apostrophe inside doubled.
\<close>

definition spec_string_literal :: "string \<Rightarrow> string" where
  "spec_string_literal s =
     [CHR 0x27] @ concat (map (\<lambda>c. if c = CHR 0x27 then [CHR 0x27, CHR 0x27] else [c]) s)
       @ [CHR 0x27]"

text \<open>
  \<open>OracleConnection::ExecuteQuery\<close>. A \<open>DataChunk\<close> is the values written into it,
  row by row (each row the values of the columns the loop sets), and its cardinality.
  \<open>Initialize\<close> and \<open>Reset\<close> give the chunk with no values and cardinality 0, and so
  does the host's \<open>Destroy\<close>. The callback gets the chunk by reference and is a
  closure: it takes its captured state and the chunk and returns its answer, the chunk
  as it leaves it, and the state after the call. \<open>STANDARD_VECTOR_SIZE\<close> is the host's
  constant 2048.
\<close>

record ('d, 'f) DataChunk =
  chunk_rows :: "('d, 'f) Value list list"
  chunk_count :: nat

definition empty_chunk :: "('d, 'f) DataChunk" where
  "empty_chunk = \<lparr>chunk_rows = [], chunk_count = 0\<rparr>"

definition STANDARD_VECTOR_SIZE :: nat where
  "STANDARD_VECTOR_SIZE = 2048"

definition convert_row ::
  "('d, 'f) host \<Rightarrow> LogicalType list \<Rightarrow> 32 word \<Rightarrow> ('d, 'f) row \<Rightarrow> ('d, 'f) Value list" where
  "convert_row h types ncols r =
     map (\<lambda>col. ToDuckDBValue h (snd (r (col + 1))) (fst (r (col + 1))) (types ! col))
         [0 ..< min (unat ncols) (length types)]"

fun fetch_loop ::
  "(('d, 'f) row \<Rightarrow> ('d, 'f) Value list) \<Rightarrow> nat
   \<Rightarrow> ('s \<Rightarrow> ('d, 'f) DataChunk \<Rightarrow> bool \<times> ('d, 'f) DataChunk \<times> 's)
   \<Rightarrow> ('d, 'f) row list \<Rightarrow> ('d, 'f) DataChunk \<Rightarrow> nat \<Rightarrow> 's
   \<Rightarrow> (('d, 'f) DataChunk \<times> nat) \<times> 's" where
  "fetch_loop conv chunk_size callback [] chunk row_count s = ((chunk, row_count), s)"
| "fetch_loop conv chunk_size callback (r # rs) chunk row_count s =
     (let chunk = chunk\<lparr>chunk_rows := chunk_rows chunk @ [conv r]\<rparr>;
          row_count = row_count + 1 in
      if row_count = chunk_size then
        (case callback s (chunk\<lparr>chunk_count := row_count\<rparr>) of
           (False, chunk', s') \<Rightarrow> ((chunk', row_count), s')
         | (True, chunk', s') \<Rightarrow> fetch_loop conv chunk_size callback rs empty_chunk 0 s')
      else fetch_loop conv chunk_size callback rs chunk row_count s)"

text \<open>The statements after the loop: the flush of what is left in the chunk.\<close>

definition flush_rest ::
  "('s \<Rightarrow> ('d, 'f) DataChunk \<Rightarrow> bool \<times> ('d, 'f) DataChunk \<times> 's)
   \<Rightarrow> (('d, 'f) DataChunk \<times> nat) \<times> 's \<Rightarrow> 's" where
  "flush_rest callback st =
     (case st of ((chunk, row_count), s) \<Rightarrow>
        if row_count > 0 then snd (snd (callback s (chunk\<lparr>chunk_count := row_count\<rparr>)))
        else s)"

definition ExecuteQuery ::
  "('d, 'f) host \<Rightarrow> ('d, 'f) database \<Rightarrow> string \<Rightarrow> LogicalType list \<Rightarrow> idx_t
   \<Rightarrow> ('s \<Rightarrow> ('d, 'f) DataChunk \<Rightarrow> bool \<times> ('d, 'f) DataChunk \<times> 's) \<Rightarrow> 's
   \<Rightarrow> (string + unit) \<times> 's" where
  "ExecuteQuery h db sql types fetch_size_arg callback s =
     (let stmt = db \<lparr>sql_text = sql, fetch_array_size = Some (ucast fetch_size_arg)\<rparr> in
      case prepare_error stmt of
        Some msg \<Rightarrow> (Inl (FormatOracleError ''ExecuteQuery::prepareStmt'' msg), s)
      | None \<Rightarrow>
          (case execute_error stmt of
             Some msg \<Rightarrow> (Inl (FormatOracleError ''ExecuteQuery::execute'' msg), s)
           | None \<Rightarrow>
               (Inr (),
                flush_rest callback
                  (fetch_loop (convert_row h types (num_cols stmt)) STANDARD_VECTOR_SIZE
                     callback (fetched stmt) empty_chunk 0 s))))"

section \<open>The scan (oracle\_scan.cpp)\<close>

text \<open>
  \<open>OracleScanLocalState\<close>; its flag \<open>done\<close> is the field \<open>local_done\<close>.
  \<open>InitLocal\<close> and \<open>Scan\<close> return their result, or the message of the exception that
  leaves them, and the pool after the call.
\<close>

record OracleScanLocalState =
  connection :: OracleConnection
  local_done :: bool

definition InitLocal ::
  "driver_open \<Rightarrow> OracleScanBindData \<Rightarrow> OracleConnectionPool
   \<Rightarrow> (string + OracleScanLocalState) \<times> OracleConnectionPool" where
  "InitLocal Open bind_data pool =
     (case Acquire Open pool of
        (Inl msg, pool') \<Rightarrow> (Inl msg, pool')
      | (Inr c, pool') \<Rightarrow> (Inr \<lparr>connection = c, local_done = False\<rparr>, pool'))"

fun projected_types_loop ::
  "LogicalType list \<Rightarrow> column_t list \<Rightarrow> LogicalType list \<Rightarrow> LogicalType list" where
  "projected_types_loop tys [] acc = acc"
| "projected_types_loop tys (cid # cids) acc =
     (if cid = COLUMN_IDENTIFIER_ROW_ID then projected_types_loop tys cids (acc @ [VARCHAR])
      else if unat cid < length tys then projected_types_loop tys cids (acc @ [tys ! unat cid])
      else projected_types_loop tys cids acc)"

text \<open>
  The callback of \<open>Scan\<close>: its captured state is the output chunk and \<open>got_chunk\<close>.
  The host's \<open>output.Move(chunk)\<close> gives the output the values and the cardinality of
  the chunk and leaves the chunk destroyed, with no values and cardinality 0.
\<close>

definition scan_callback ::
  "('d, 'f) DataChunk \<times> bool \<Rightarrow> ('d, 'f) DataChunk
   \<Rightarrow> bool \<times> ('d, 'f) DataChunk \<times> (('d, 'f) DataChunk \<times> bool)" where
  "scan_callback captured chunk = (False, empty_chunk, (chunk, True))"

definition Scan ::
  "('d, 'f) host \<Rightarrow> driver_open \<Rightarrow> ('d, 'f) database \<Rightarrow> OracleScanBindData
   \<Rightarrow> OracleConnectionPool \<Rightarrow> OracleScanLocalState \<Rightarrow> ('d, 'f) DataChunk
   \<Rightarrow> (string + OracleScanLocalState \<times> ('d, 'f) DataChunk) \<times> OracleConnectionPool" where
  "Scan h Open db bind_data pool local_state output =
     (if local_done local_state then (Inr (local_state, output), pool)
      else
        (let projected_types =
               (if column_ids bind_data = [] then all_types bind_data
                else projected_types_loop (all_types bind_data) (column_ids bind_data) []);
             sql = BuildSelectQuery bind_data
         in case Acquire Open pool of
              (Inl msg, pool') \<Rightarrow> (Inl msg, pool')
            | (Inr acquired, pool') \<Rightarrow>
                (case ExecuteQuery h db sql projected_types
                        (word_of_int (fetch_size (GetParams acquired)))
                        scan_callback (output, False) of
                   (Inl msg, captured) \<Rightarrow> (Inl msg, pool')
                 | (Inr u, (output', got_chunk)) \<Rightarrow>
                     (Inr (if \<not> got_chunk then local_state\<lparr>local_done := True\<rparr>
                           else local_state, output'),
                      pool'))))"

section \<open>The filter rewriter (oracle\_optimizer.cpp)\<close>

text \<open>
  The host's bound expressions, by expression class: the five classes the rewriter has a
  case for, with the members it reads, and \<open>BoundOther\<close> for every other class. The
  expression types are the eight the rewriter names and \<open>OTHER_EXPRESSION_TYPE\<close> for the
  rest.
\<close>

datatype ExpressionType =
    COMPARE_EQUAL | COMPARE_NOTEQUAL | COMPARE_LESSTHAN | COMPARE_GREATERTHAN
  | COMPARE_LESSTHANOREQUALTO | COMPARE_GREATERTHANOREQUALTO
  | CONJUNCTION_AND | CONJUNCTION_OR
  | OTHER_EXPRESSION_TYPE nat

datatype ('d, 'f) Expression =
    BoundComparison ExpressionType "('d, 'f) Expression" "('d, 'f) Expression"
  | BoundConjunction ExpressionType "('d, 'f) Expression list"
  | BoundFunction string "('d, 'f) Expression list"
  | BoundConstant "('d, 'f) Value"
  | BoundColumnRef idx_t
  | BoundOther nat

text \<open>
  \<open>std::to_string\<close> of a signed integer, and \<open>snprintf\<close>'s \<open>%0wd\<close>: the sign, then
  zeros up to the width, then the digits.
\<close>

definition to_string_int :: "int \<Rightarrow> string" where
  "to_string_int n =
     (if n < 0 then ''-'' @ to_string_nat (nat (- n)) else to_string_nat (nat n))"

definition printf_0d :: "nat \<Rightarrow> int \<Rightarrow> string" where
  "printf_0d w n =
     (let sgn_part = (if n < 0 then ''-'' else []); digits = to_string_nat (nat \<bar>n\<bar>)
      in sgn_part @ replicate (w - length sgn_part - length digits) (CHR ''0'') @ digits)"

text \<open>
  \<open>ConstantToSQL\<close>. The switch is on the type id of the value; \<open>snprintf\<close> writes at
  most the buffer's size less one.
\<close>

definition ConstantToSQL :: "('d, 'f) host \<Rightarrow> ('d, 'f) Value \<Rightarrow> string" where
  "ConstantToSQL h val =
     (if IsNull val then ''NULL''
      else case val of
        Value_BOOLEAN b \<Rightarrow> (if b then ''1'' else ''0'')
      | Value_TINYINT v \<Rightarrow> to_string_int (sint v)
      | Value_SMALLINT v \<Rightarrow> to_string_int (sint v)
      | Value_INTEGER v \<Rightarrow> to_string_int (sint v)
      | Value_BIGINT v \<Rightarrow> to_string_int (sint v)
      | Value_FLOAT v \<Rightarrow> to_string_float h v
      | Value_DOUBLE v \<Rightarrow> to_string_double h v
      | Value_VARCHAR s \<Rightarrow>
          [CHR 0x27] @ concat (map (\<lambda>c. if c = CHR 0x27 then [CHR 0x27, c] else [c]) s)
            @ [CHR 0x27]
      | Value_DATE d \<Rightarrow>
          (case Date_Convert h d of (y, m, dd) \<Rightarrow>
             take 31 (''DATE '' @ [CHR 0x27] @ printf_0d 4 y @ ''-'' @ printf_0d 2 m @ ''-''
                        @ printf_0d 2 dd @ [CHR 0x27]))
      | Value_TIMESTAMP ts \<Rightarrow>
          (case Date_Convert h (Timestamp_GetDate h ts) of (y, m, dd) \<Rightarrow>
           case Time_Convert h (Timestamp_GetTime h ts) of (hh, mi, ss, ms) \<Rightarrow>
             take 63 (''TIMESTAMP '' @ [CHR 0x27] @ printf_0d 4 y @ ''-'' @ printf_0d 2 m @ ''-''
                        @ printf_0d 2 dd @ '' '' @ printf_0d 2 hh @ '':'' @ printf_0d 2 mi
                        @ '':'' @ printf_0d 2 ss @ [CHR 0x27]))
      | _ \<Rightarrow> [])"

definition ColumnToSQL :: "idx_t \<Rightarrow> string list \<Rightarrow> string" where
  "ColumnToSQL col_idx col_names =
     (if unat col_idx \<ge> length col_names then []
      else QuoteIdentifier (col_names ! unat col_idx))"

definition comparison_op :: "ExpressionType \<Rightarrow> string option" where
  "comparison_op t =
     (case t of
        COMPARE_EQUAL \<Rightarrow> Some '' = ''
      | COMPARE_NOTEQUAL \<Rightarrow> Some '' <> ''
      | COMPARE_LESSTHAN \<Rightarrow> Some '' < ''
      | COMPARE_GREATERTHAN \<Rightarrow> Some '' > ''
      | COMPARE_LESSTHANOREQUALTO \<Rightarrow> Some '' <= ''
      | COMPARE_GREATERTHANOREQUALTO \<Rightarrow> Some '' >= ''
      | _ \<Rightarrow> None)"

text \<open>
  \<open>ExpressionToSQL\<close> with the functions it dispatches to, which call it back on the
  children: \<open>ComparisonToSQL\<close>, \<open>ConjunctionToSQL\<close>, \<open>FunctionToSQL\<close>. The empty
  string says that the expression is not rendered.
\<close>

fun ExpressionToSQL :: "('d, 'f) host \<Rightarrow> string list \<Rightarrow> ('d, 'f) Expression \<Rightarrow> string" where
  "ExpressionToSQL h col_names (BoundComparison t left right) =
     (let lhs = ExpressionToSQL h col_names left; rhs = ExpressionToSQL h col_names right in
      if lhs = [] \<or> rhs = [] then []
      else case comparison_op t of
             None \<Rightarrow> []
           | Some op \<Rightarrow> ''('' @ lhs @ op @ rhs @ '')'')"
| "ExpressionToSQL h col_names (BoundConjunction t children) =
     (if t \<noteq> CONJUNCTION_AND \<and> t \<noteq> CONJUNCTION_OR then []
      else
        (let op = (if t = CONJUNCTION_AND then '' AND '' else '' OR '');
             parts = map (ExpressionToSQL h col_names) children
         in if [] \<in> set parts then [] else ''('' @ join_with op parts @ '')''))"
| "ExpressionToSQL h col_names (BoundFunction fn children) =
     (case children of
        [x] \<Rightarrow>
          (if fn = ''isnull'' then
             (let child = ExpressionToSQL h col_names x in
              if child = [] then [] else ''('' @ child @ '' IS NULL)'')
           else if fn = ''isnotnull'' then
             (let child = ExpressionToSQL h col_names x in
              if child = [] then [] else ''('' @ child @ '' IS NOT NULL)'')
           else [])
      | [x, y] \<Rightarrow>
          (if fn = ''~~'' then
             (let col = ExpressionToSQL h col_names x; pat = ExpressionToSQL h col_names y in
              if col = [] \<or> pat = [] then [] else ''('' @ col @ '' LIKE '' @ pat @ '')'')
           else [])
      | _ \<Rightarrow> [])"
| "ExpressionToSQL h col_names (BoundConstant val) = ConstantToSQL h val"
| "ExpressionToSQL h col_names (BoundColumnRef col_idx) = ColumnToSQL col_idx col_names"
| "ExpressionToSQL h col_names (BoundOther c) = []"

text \<open>
  \<open>PushdownFilters\<close>: the loop over the filters, its state the filters of the bind data
  and the vector \<open>remaining\<close>; the call returns the bind data and the caller's filter
  vector after it.
\<close>

fun pushdown_loop ::
  "('d, 'f) host \<Rightarrow> string list \<Rightarrow> ('d, 'f) Expression list
   \<Rightarrow> string list \<times> ('d, 'f) Expression list \<Rightarrow> string list \<times> ('d, 'f) Expression list" where
  "pushdown_loop h column_names [] (pushed, remaining) = (pushed, remaining)"
| "pushdown_loop h column_names (f # fs) (pushed, remaining) =
     (let sql = ExpressionToSQL h column_names f in
      if sql \<noteq> [] then pushdown_loop h column_names fs (pushed @ [sql], remaining)
      else pushdown_loop h column_names fs (pushed, remaining @ [f]))"

definition PushdownFilters ::
  "('d, 'f) host \<Rightarrow> OracleScanBindData \<Rightarrow> string list \<Rightarrow> ('d, 'f) Expression list
   \<Rightarrow> OracleScanBindData \<times> ('d, 'f) Expression list" where
  "PushdownFilters h bind_data column_names fs =
     (case pushdown_loop h column_names fs (filters bind_data, []) of
        (pushed, remaining) \<Rightarrow> (bind_data\<lparr>filters := pushed\<rparr>, remaining))"

text \<open>Sample parameters and connections for the concrete checks below.\<close>

definition sample_params :: OracleConnectionParameters where
  "sample_params =
     \<lparr>host = ''localhost'', port = 1521, service_name = ''ORCL'', sid = [], tns_name = [],
      user = ''hr'', password = ''hr'', wallet_location = [], default_schema = [],
      read_only = False, fetch_size = 10000\<rparr>"

definition sample_conn :: "nat \<Rightarrow> OracleConnection" where
  "sample_conn n = \<lparr>c_params = sample_params, c_conn = n\<rparr>"

definition refusing_driver :: driver_open where
  "refusing_driver ps = Inl ''ORA-12541: TNS:no listener''"


text \<open>
  A host for the concrete checks: \<open>double\<close> and \<open>float\<close> cells hold whole numbers,
  there are no LOBs, and the process runs in a time zone \<open>east_seconds\<close> east of UTC.
\<close>

definition sample_host :: "int \<Rightarrow> (int, int) host" where
  "sample_host east_seconds =
     \<lparr>mktime = mktime_fixed_zone east_seconds,
      double_to_float = (\<lambda>d. d),
      double_to_int64 = word_of_int,
      double_to_int32 = word_of_int,
      round_times_pow10 = (\<lambda>d s. d * 10 ^ unat s),
      dpiLob_getSize = (\<lambda>lob. None),
      dpiLob_readBytes = (\<lambda>lob off amount. None),
      to_string_float = (\<lambda>f. []),
      to_string_double = (\<lambda>d. []),
      Date_Convert = (\<lambda>d. (1970, 1, 1)),
      Timestamp_GetDate = (\<lambda>t. 0),
      Timestamp_GetTime = (\<lambda>t. 0),
      Time_Convert = (\<lambda>t. (0, 0, 0, 0))\<rparr>"

definition zero_timestamp :: dpiTimestamp where
  "zero_timestamp =
     \<lparr>year = 0, month = 0, day = 0, hour = 0, minute = 0, second = 0, fsecond = 0,
      tzHourOffset = 0, tzMinuteOffset = 0\<rparr>"

definition zero_buffer :: "(int, int) dpiDataBuffer" where
  "zero_buffer =
     \<lparr>asBoolean = 0, asInt64 = 0, asUint64 = 0, asFloat = 0, asDouble = 0, asBytes = [],
      asTimestamp = zero_timestamp,
      asIntervalDS = \<lparr>days = 0, hours = 0, minutes = 0, seconds = 0, fseconds = 0\<rparr>,
      asIntervalYM = \<lparr>years = 0, months = 0\<rparr>,
      asLOB = 0\<rparr>"

text \<open>Scenario S5: the cell 2024-01-01 00:00:00 +05:00, and a cell the driver flags null.\<close>

definition S5_timestamp_cell :: "(int, int) dpiData" where
  "S5_timestamp_cell =
     \<lparr>isNull = False,
      buffer = zero_buffer\<lparr>asTimestamp :=
        \<lparr>year = 2024, month = 1, day = 1, hour = 0, minute = 0, second = 0, fsecond = 0,
         tzHourOffset = 5, tzMinuteOffset = 0\<rparr>\<rparr>\<rparr>"

definition null_cell :: "(int, int) dpiData" where
  "null_cell = \<lparr>isNull = True, buffer = zero_buffer\<rparr>"

definition int_cell :: "64 word \<Rightarrow> (int, int) dpiData" where
  "int_cell n = \<lparr>isNull = False, buffer = zero_buffer\<lparr>asInt64 := n\<rparr>\<rparr>"

definition number_column :: "32 word \<Rightarrow> 32 word \<Rightarrow> OracleColumnInfo" where
  "number_column p s =
     \<lparr>name = ''N'', oracle_type_name = ''NUMBER'', precision = p, scale = s,
      char_length = 0, nullable = True\<rparr>"

text \<open>
  Sample rows and a sample dictionary: the dictionary knows the table HR.EMPLOYEES of
  scenario S1 and no other table. A sample row is a list of cells, read by position.
\<close>

definition cells_row :: "(dpiNativeTypeNum \<times> (int, int) dpiData) list \<Rightarrow> (int, int) row" where
  "cells_row cells pos =
     (if 1 \<le> pos \<and> pos \<le> length cells then cells ! (pos - 1)
      else (DPI_NATIVE_TYPE_BYTES, null_cell))"

definition bytes_cell :: "string \<Rightarrow> dpiNativeTypeNum \<times> (int, int) dpiData" where
  "bytes_cell s =
     (DPI_NATIVE_TYPE_BYTES, \<lparr>isNull = False, buffer = zero_buffer\<lparr>asBytes := s\<rparr>\<rparr>)"

definition double_cell :: "int \<Rightarrow> dpiNativeTypeNum \<times> (int, int) dpiData" where
  "double_cell d =
     (DPI_NATIVE_TYPE_DOUBLE, \<lparr>isNull = False, buffer = zero_buffer\<lparr>asDouble := d\<rparr>\<rparr>)"

definition sample_dictionary :: "(int, int) database" where
  "sample_dictionary req =
     \<lparr>prepare_error = None, execute_error = None, num_cols = 6,
      fetched =
        (if sql_text req = GetColumns_sql ''HR'' ''EMPLOYEES'' then
           [cells_row [bytes_cell ''EMP_ID'', bytes_cell ''NUMBER'', double_cell 9, double_cell 0,
                       double_cell 0, bytes_cell ''N''],
            cells_row [bytes_cell ''NAME'', bytes_cell ''VARCHAR2'',
                       (DPI_NATIVE_TYPE_DOUBLE, null_cell), (DPI_NATIVE_TYPE_DOUBLE, null_cell),
                       double_cell 50, bytes_cell ''Y'']]
         else [])\<rparr>"

text \<open>
  The filters of scenarios S2 and S3 on the columns of S1: \<open>EMP_ID = 42\<close>,
  \<open>NAME LIKE 'A%'\<close> and \<open>lower(NAME) = 'x'\<close>.
\<close>

definition filter_emp_id_eq_42 :: "(int, int) Expression" where
  "filter_emp_id_eq_42 =
     BoundComparison COMPARE_EQUAL (BoundColumnRef 0) (BoundConstant (Value_INTEGER 42))"

definition filter_name_like :: "(int, int) Expression" where
  "filter_name_like =
     BoundFunction ''~~'' [BoundColumnRef 1, BoundConstant (Value_VARCHAR ''A%'')]"

definition filter_lower_name :: "(int, int) Expression" where
  "filter_lower_name =
     BoundComparison COMPARE_EQUAL (BoundFunction ''lower'' [BoundColumnRef 1])
       (BoundConstant (Value_VARCHAR ''x''))"

text \<open>
  Samples for the executor and the scan: a database whose every result is one full chunk
  of one-column rows, callbacks that count their calls and refuse or accept every chunk,
  a database whose single row holds the fetch array size it was asked with, an idle
  connection whose parameters carry the fetch size 77, and a local state that is not done.
\<close>

definition full_chunk_db :: "(int, int) database" where
  "full_chunk_db req =
     \<lparr>prepare_error = None, execute_error = None, num_cols = 1,
      fetched = replicate STANDARD_VECTOR_SIZE
                  (cells_row [(DPI_NATIVE_TYPE_INT64, int_cell 7)])\<rparr>"

definition refuse_and_count ::
  "nat \<Rightarrow> (int, int) DataChunk \<Rightarrow> bool \<times> (int, int) DataChunk \<times> nat" where
  "refuse_and_count n chunk = (False, chunk, n + 1)"

definition accept_and_count ::
  "nat \<Rightarrow> (int, int) DataChunk \<Rightarrow> bool \<times> (int, int) DataChunk \<times> nat" where
  "accept_and_count n chunk = (True, chunk, n + 1)"

definition fetch_size_echo_db :: "(int, int) database" where
  "fetch_size_echo_db req =
     \<lparr>prepare_error = None, execute_error = None, num_cols = 1,
      fetched = [cells_row [(DPI_NATIVE_TYPE_INT64,
                   int_cell (case fetch_array_size req of None \<Rightarrow> 0 | Some n \<Rightarrow> ucast n))]]\<rparr>"

definition idle_conn_77 :: OracleConnection where
  "idle_conn_77 = \<lparr>c_params = sample_params\<lparr>fetch_size := 77\<rparr>, c_conn = 1\<rparr>"

definition sample_local :: OracleScanLocalState where
  "sample_local = \<lparr>connection = sample_conn 0, local_done = False\<rparr>"

section \<open>Properties\<close>

subsection \<open>Bind-data equality\<close>

text \<open>
  C10. \<open>a.Equals(b)\<close> holds exactly when the schemas are equal and the tables are equal;
  bind data that differ only in filters, column ids, limit, offset or server major
  version are reported equal.
\<close>

theorem C10_Equals_schema_table:
  "Equals a b = (schema a = schema b \<and> table a = table b)
   \<and> Equals a (a\<lparr>filters := fs, column_ids := cids, limit := l, offset := off,
                   oracle_major_version := v\<rparr>)"
  by (simp add: Equals_def)

subsection \<open>The connection pool\<close>

lemma pool_step_max_connections:
  "p_max_connections (pool_step Open p c) = p_max_connections p"
  by (cases c) (simp_all add: Acquire_def Release_def ClearCache_def)

lemma pool_step_cap:
  assumes "length (p_pool p) \<le> p_max_connections p"
  shows "length (p_pool (pool_step Open p c)) \<le> p_max_connections p"
proof (cases c)
  case CallAcquire
  with assms show ?thesis by (auto simp: Acquire_def)
next
  case (CallRelease x)
  then show ?thesis using assms by (simp add: Release_def)
next
  case CallClearCache
  then show ?thesis by (simp add: ClearCache_def)
qed

lemma pool_run_cap:
  "length (p_pool p) \<le> p_max_connections p \<Longrightarrow>
   length (p_pool (pool_run Open calls p)) \<le> p_max_connections p
   \<and> p_max_connections (pool_run Open calls p) = p_max_connections p"
proof (induction calls arbitrary: p)
  case Nil
  then show ?case by (simp add: pool_run_def)
next
  case (Cons c calls)
  have step: "length (p_pool (pool_step Open p c)) \<le> p_max_connections (pool_step Open p c)"
    using pool_step_cap [OF Cons.prems] by (simp add: pool_step_max_connections)
  show ?case
    using Cons.IH [OF step] by (simp add: pool_run_def pool_step_max_connections)
qed

text \<open>
  C7. After every sequence of Acquire, Release and ClearCache calls on a pool constructed
  with capacity \<open>max_connections\<close> (8 by default) the idle list holds at most
  \<open>max_connections\<close> connections. Acquire takes the last idle connection when there is
  one and otherwise opens a new one and leaves the list alone; Release appends the
  connection when the list is under the cap and otherwise drops it; ClearCache empties
  the list.
\<close>

theorem C7_pool_free_list_bounded:
  "length (p_pool (pool_run Open calls (OracleConnectionPool_new ps cap))) \<le> cap
   \<and> length (p_pool (pool_run Open calls (OracleConnectionPool_default ps))) \<le> 8
   \<and> (p_pool p \<noteq> [] \<longrightarrow>
        Acquire Open p = (Inr (last (p_pool p)), p\<lparr>p_pool := butlast (p_pool p)\<rparr>))
   \<and> (p_pool p = [] \<longrightarrow> Acquire Open p = (Open (p_params p), p))
   \<and> (length (p_pool p) < p_max_connections p \<longrightarrow> p_pool (Release p c) = p_pool p @ [c])
   \<and> (\<not> length (p_pool p) < p_max_connections p \<longrightarrow> Release p c = p)
   \<and> p_pool (ClearCache p) = []"
proof -
  have a: "length (p_pool (pool_run Open calls (OracleConnectionPool_new ps cap))) \<le> cap"
    using pool_run_cap [of "OracleConnectionPool_new ps cap" Open calls]
    by (simp add: OracleConnectionPool_new_def)
  have b: "length (p_pool (pool_run Open calls (OracleConnectionPool_default ps))) \<le> 8"
    using pool_run_cap [of "OracleConnectionPool_new ps 8" Open calls]
    by (simp add: OracleConnectionPool_new_def OracleConnectionPool_default_def)
  show ?thesis
    using a b by (simp add: Acquire_def Release_def ClearCache_def)
qed

theorem C7_pool_free_list_bounded_witness:
  "length (p_pool (pool_run refusing_driver
       [CallRelease (sample_conn 1), CallRelease (sample_conn 2), CallRelease (sample_conn 3),
        CallAcquire]
       (OracleConnectionPool_new sample_params 2))) \<le> 2
   \<and> p_pool (OracleConnectionPool_new sample_params 2\<lparr>p_pool := [sample_conn 1, sample_conn 2]\<rparr>) \<noteq> []
   \<and> Acquire refusing_driver
        (OracleConnectionPool_new sample_params 2\<lparr>p_pool := [sample_conn 1, sample_conn 2]\<rparr>)
      = (Inr (sample_conn 2),
         OracleConnectionPool_new sample_params 2\<lparr>p_pool := [sample_conn 1]\<rparr>)
   \<and> p_pool (OracleConnectionPool_new sample_params 2) = []
   \<and> Acquire refusing_driver (OracleConnectionPool_new sample_params 2)
      = (Inl ''ORA-12541: TNS:no listener'', OracleConnectionPool_new sample_params 2)
   \<and> length (p_pool (OracleConnectionPool_new sample_params 2)) < 2
   \<and> p_pool (Release (OracleConnectionPool_new sample_params 2) (sample_conn 1)) = [sample_conn 1]
   \<and> \<not> length (p_pool (OracleConnectionPool_new sample_params 2
            \<lparr>p_pool := [sample_conn 1, sample_conn 2]\<rparr>)) < 2
   \<and> Release (OracleConnectionPool_new sample_params 2\<lparr>p_pool := [sample_conn 1, sample_conn 2]\<rparr>)
        (sample_conn 3)
      = OracleConnectionPool_new sample_params 2\<lparr>p_pool := [sample_conn 1, sample_conn 2]\<rparr>"
  using C7_pool_free_list_bounded
          [of refusing_driver
              "[CallRelease (sample_conn 1), CallRelease (sample_conn 2),
                CallRelease (sample_conn 3), CallAcquire]"
              sample_params 2
              "OracleConnectionPool_new sample_params 2\<lparr>p_pool := [sample_conn 1, sample_conn 2]\<rparr>"
              "sample_conn 3"]
        C7_pool_free_list_bounded
          [of refusing_driver "[]" sample_params 2
              "OracleConnectionPool_new sample_params 2" "sample_conn 1"]
  by (simp add: OracleConnectionPool_new_def refusing_driver_def)

subsection \<open>The SELECT builder\<close>

lemma join_with_Cons:
  "join_with sep (x # xs) = (if xs = [] then x else x @ sep @ join_with sep xs)"
  by (cases xs) simp_all

lemma projection_loop_eq:
  "projection_loop cols cids (oss, first) =
     (let items = concat (map (\<lambda>cid. if cid = COLUMN_IDENTIFIER_ROW_ID then [''ROWID'']
                                       else if unat cid < length cols
                                            then [QuoteIdentifier (name (cols ! unat cid))]
                                            else []) cids)
      in (if items = [] then oss
          else (if first then oss else oss @ '', '') @ join_with '', '' items,
          first \<and> items = []))"
proof (induction cids arbitrary: oss first)
  case Nil
  then show ?case by simp
next
  case (Cons cid cids)
  show ?case
    by (simp add: Cons.IH Let_def join_with_Cons)
qed

lemma where_loop_eq:
  "where_loop fs i oss =
     (if fs = [] then oss
      else (if i > 0 then oss @ '' AND '' else oss) @ join_with '' AND '' fs)"
proof (induction fs arbitrary: i oss)
  case Nil
  then show ?case by simp
next
  case (Cons f fs)
  show ?case by (simp add: Cons.IH join_with_Cons)
qed

lemma build_inner_eq:
  "(let oss = ''SELECT '';
        oss = (if column_ids bd = [] then oss @ ''*''
               else (case projection_loop (all_columns bd) (column_ids bd) (oss, True) of
                       (oss, first) \<Rightarrow> if first then oss @ ''*'' else oss));
        oss = oss @ '' FROM '' @ QuoteIdentifier (schema bd) @ ''.'' @ QuoteIdentifier (table bd)
    in (if filters bd \<noteq> [] then where_loop (filters bd) 0 (oss @ '' WHERE '') else oss))
   = spec_inner_query bd"
  by (simp add: spec_inner_query_def spec_select_list_def spec_select_items_def
      projection_loop_eq where_loop_eq Let_def)

lemma BuildSelectQuery_refines: "BuildSelectQuery bd = spec_select_query bd"
  unfolding BuildSelectQuery_def spec_select_query_def build_inner_eq [symmetric]
  by (simp add: Let_def)

text \<open>
  C1. \<open>BuildSelectQuery\<close> emits the SQL of the builder algorithm: the SELECT list is
  \<open>*\<close> for an empty projection, otherwise ROWID for the row-id sentinel and the quoted
  column name for an id below the column count, ids out of range skipped and \<open>*\<close> when
  all were skipped; then FROM the quoted schema and table; then WHERE with the filters
  joined by AND when there are filters; then, when a limit is set, OFFSET (only for an
  offset above 0) and FETCH FIRST for a server major version of 12 or more, and the
  ROWNUM wrapper below 12. The sum \<open>offset + limit\<close> is the \<open>idx_t\<close> sum of the source.
  Scenario S1 gives the SQL of the specification, and scenario S4 (version 11, limit 5,
  offset 10) wraps the inner query with \<open>ROWNUM <= 15\<close> and \<open>rn__ > 10\<close>.
\<close>

theorem C1_BuildSelectQuery_emits_prescribed_sql:
  \<open>BuildSelectQuery bd = spec_select_query bd
   \<and> BuildSelectQuery S1_bind_data
      = ''SELECT "EMP_ID", "NAME" FROM "HR"."EMPLOYEES" FETCH FIRST 10 ROWS ONLY''
   \<and> BuildSelectQuery (bd\<lparr>limit := 5, offset := 10, oracle_major_version := 11\<rparr>)
      = ''SELECT * FROM (SELECT ROWNUM rn__, t__.* FROM (''
          @ BuildSelectQuery (bd\<lparr>limit := INVALID_INDEX\<rparr>)
          @ '') t__ WHERE ROWNUM <= 15) WHERE rn__ > 10''\<close>
proof -
  have s1: \<open>BuildSelectQuery S1_bind_data
      = ''SELECT "EMP_ID", "NAME" FROM "HR"."EMPLOYEES" FETCH FIRST 10 ROWS ONLY''\<close>
    by (simp add: BuildSelectQuery_def S1_bind_data_def S1_columns_def
        COLUMN_IDENTIFIER_ROW_ID_def INVALID_INDEX_def put_idx_def to_string_nat.simps
        digit_char_def QuoteIdentifier_def)
  have s4: "BuildSelectQuery (bd\<lparr>limit := 5, offset := 10, oracle_major_version := 11\<rparr>)
      = ''SELECT * FROM (SELECT ROWNUM rn__, t__.* FROM (''
          @ BuildSelectQuery (bd\<lparr>limit := INVALID_INDEX\<rparr>)
          @ '') t__ WHERE ROWNUM <= 15) WHERE rn__ > 10''"
    by (simp add: BuildSelectQuery_def INVALID_INDEX_def put_idx_def to_string_nat.simps
        digit_char_def Let_def)
  show ?thesis
    using BuildSelectQuery_refines [of bd] s1 s4 by simp
qed

subsection \<open>Type mapping\<close>

lemma word8_of_sint32:
  fixes w :: "32 word"
  shows "(word_of_int (sint w) :: 8 word) = ucast w"
proof -
  have "(scast w :: 8 word) = ucast w"
    by (simp add: down_cast_same is_down)
  then show ?thesis by simp
qed

lemma uint_word8_of_int:
  "0 \<le> p \<Longrightarrow> p \<le> 255 \<Longrightarrow> uint (word_of_int p :: 8 word) = p"
  by (simp add: uint_word_of_int_eq take_bit_int_eq_self)

text \<open>
  C2, as the claim states it, fails: for the NUMBER column with precision 300 and scale 2
  the claim's case is DECIMAL(precision, scale), and \<open>ToDuckDBType\<close> returns the DECIMAL
  of width 44 and scale 2.
\<close>

theorem C2_ToDuckDBType_DECIMAL_width_counterexample:
  "oracle_type_name (number_column 300 2) = ''NUMBER''
   \<and> sint (precision (number_column 300 2)) = 300
   \<and> sint (scale (number_column 300 2)) = 2
   \<and> ToDuckDBType (number_column 300 2) = DECIMAL 44 2"
  by (simp add: number_column_def ToDuckDBType_def number_integer_block_def)

text \<open>
  C2, amended. \<open>ToDuckDBType\<close> is a function of the column descriptor alone, with a
  result for every descriptor. For a column whose type name is NUMBER, with precision
  \<open>p\<close> and scale \<open>s\<close>: DOUBLE when \<open>p = 0\<close> and \<open>s = -127\<close>; otherwise, when \<open>s\<close>
  is 0 or -127, SMALLINT for \<open>p \<le> 4\<close>, INTEGER for \<open>p \<le> 9\<close>, BIGINT for
  \<open>p \<le> 18\<close>, HUGEINT for \<open>p \<le> 38\<close>; otherwise, when \<open>p > 0\<close> and \<open>s \<ge> 0\<close> and
  both are at most 255, the DECIMAL of width \<open>p\<close> and scale \<open>s\<close>; and DOUBLE in every
  remaining case in which \<open>p > 0\<close> and \<open>s \<ge> 0\<close> do not both hold.
\<close>

theorem C2_ToDuckDBType_NUMBER_in_range:
  assumes "oracle_type_name col = ''NUMBER''"
    and "p = sint (precision col)" and "s = sint (scale col)"
  shows "(p = 0 \<and> s = - 127 \<longrightarrow> ToDuckDBType col = DOUBLE)
   \<and> (\<not> (p = 0 \<and> s = - 127) \<and> (s = 0 \<or> s = - 127) \<longrightarrow>
        (p \<le> 4 \<longrightarrow> ToDuckDBType col = SMALLINT)
      \<and> (4 < p \<and> p \<le> 9 \<longrightarrow> ToDuckDBType col = INTEGER)
      \<and> (9 < p \<and> p \<le> 18 \<longrightarrow> ToDuckDBType col = BIGINT)
      \<and> (18 < p \<and> p \<le> 38 \<longrightarrow> ToDuckDBType col = HUGEINT))
   \<and> (\<not> (p = 0 \<and> s = - 127) \<and> \<not> ((s = 0 \<or> s = - 127) \<and> p \<le> 38) \<and> p > 0 \<and> s \<ge> 0
        \<and> p \<le> 255 \<and> s \<le> 255 \<longrightarrow>
        ToDuckDBType col = DECIMAL (word_of_int p) (word_of_int s)
        \<and> uint (word_of_int p :: 8 word) = p \<and> uint (word_of_int s :: 8 word) = s)
   \<and> (\<not> (p = 0 \<and> s = - 127) \<and> \<not> ((s = 0 \<or> s = - 127) \<and> p \<le> 38) \<and> \<not> (p > 0 \<and> s \<ge> 0) \<longrightarrow>
        ToDuckDBType col = DOUBLE)"
  using assms word8_of_sint32 [of "precision col"] word8_of_sint32 [of "scale col"]
    uint_word8_of_int [of p] uint_word8_of_int [of s]
  by (auto simp: ToDuckDBType_def number_integer_block_def Let_def)

theorem C2_ToDuckDBType_NUMBER_in_range_witness:
  "oracle_type_name (number_column 10 2) = ''NUMBER''
   \<and> ToDuckDBType (number_column 10 2) = DECIMAL 10 2
   \<and> ToDuckDBType (number_column 38 0) = HUGEINT
   \<and> ToDuckDBType (number_column 0 (- 127)) = DOUBLE
   \<and> ToDuckDBType (number_column 4 0) = SMALLINT
   \<and> ToDuckDBType (number_column 9 (- 127)) = INTEGER
   \<and> ToDuckDBType (number_column 18 0) = BIGINT
   \<and> ToDuckDBType (number_column 39 0) = DECIMAL 39 0
   \<and> ToDuckDBType (number_column 5 (- 2)) = DOUBLE"
proof -
  have n: "oracle_type_name (number_column p s) = ''NUMBER''" for p s
    by (simp add: number_column_def)
  have p: "precision (number_column p s) = p" and s: "scale (number_column p s) = s" for p s
    by (simp_all add: number_column_def)
  have a: "ToDuckDBType (number_column 10 2) = DECIMAL 10 2"
    using C2_ToDuckDBType_NUMBER_in_range [OF n refl refl, of 10 2] by (simp add: p s)
  have b: "ToDuckDBType (number_column 38 0) = HUGEINT"
    using C2_ToDuckDBType_NUMBER_in_range [OF n refl refl, of 38 0] by (simp add: p s)
  have c: "ToDuckDBType (number_column 0 (- 127)) = DOUBLE"
    using C2_ToDuckDBType_NUMBER_in_range [OF n refl refl, of 0 "- 127"] by (simp add: p s)
  have d: "ToDuckDBType (number_column 4 0) = SMALLINT"
    using C2_ToDuckDBType_NUMBER_in_range [OF n refl refl, of 4 0] by (simp add: p s)
  have e: "ToDuckDBType (number_column 9 (- 127)) = INTEGER"
    using C2_ToDuckDBType_NUMBER_in_range [OF n refl refl, of 9 "- 127"] by (simp add: p s)
  have f: "ToDuckDBType (number_column 18 0) = BIGINT"
    using C2_ToDuckDBType_NUMBER_in_range [OF n refl refl, of 18 0] by (simp add: p s)
  have g: "ToDuckDBType (number_column 39 0) = DECIMAL 39 0"
    using C2_ToDuckDBType_NUMBER_in_range [OF n refl refl, of 39 0] by (simp add: p s)
  have h: "ToDuckDBType (number_column 5 (- 2)) = DOUBLE"
    using C2_ToDuckDBType_NUMBER_in_range [OF n refl refl, of 5 "- 2"] by (simp add: p s)
  show ?thesis using n a b c d e f g h by simp
qed

subsection \<open>Cell conversion\<close>

text \<open>
  What the timestamp case computes, for every host and every cell that is not null: the
  whole seconds are those of \<open>mktime\<close> on the cell's components.
\<close>

lemma ToDuckDBValue_timestamp:
  "ToDuckDBValue h (data\<lparr>isNull := False\<rparr>) DPI_NATIVE_TYPE_TIMESTAMP TIMESTAMP
     = Value_TIMESTAMP
         (word_of_int (mktime h (timestamp_tm (asTimestamp (buffer data)))) * 1000000
            + ucast (fsecond (asTimestamp (buffer data)) div 1000))"
  "ToDuckDBValue h (data\<lparr>isNull := False\<rparr>) DPI_NATIVE_TYPE_TIMESTAMP TIMESTAMP_TZ
     = Value_TIMESTAMPTZ
         (word_of_int (mktime h (timestamp_tm (asTimestamp (buffer data)))) * 1000000
            + ucast (fsecond (asTimestamp (buffer data)) div 1000)
            - scast (tz_offset_sec (asTimestamp (buffer data))) * 1000000)"
  by (simp_all add: ToDuckDBValue_def timestamp_us_def Let_def
      DPI_NATIVE_TYPE_TIMESTAMP_def DPI_NATIVE_TYPE_DOUBLE_def DPI_NATIVE_TYPE_FLOAT_def
      DPI_NATIVE_TYPE_INT64_def DPI_NATIVE_TYPE_UINT64_def DPI_NATIVE_TYPE_BYTES_def)

text \<open>
  C5. For a timestamp cell the claim asks for the instant of the cell's date and time:
  the whole seconds since the epoch of its components times \<open>10^6\<close>, plus
  \<open>fsecond / 1000\<close>, less the zone offset for TIMESTAMP\_TZ, so that
  2024-01-01 00:00:00 +05:00 is stored as 2023-12-31T19:00:00Z
  (1704049200000000 microseconds). \<open>ToDuckDBValue\<close> takes the whole seconds from
  \<open>mktime\<close>, which reads the components in the local time zone of the process. In a
  process that runs in UTC the stored instant is the claimed one; in a process nine
  hours east of UTC the same cell is stored as 1704016800000000 microseconds, which is
  2023-12-31T10:00:00Z.
\<close>

theorem C5_timestamp_follows_process_time_zone:
  "ToDuckDBValue (sample_host 32400) S5_timestamp_cell DPI_NATIVE_TYPE_TIMESTAMP TIMESTAMP_TZ
     = Value_TIMESTAMPTZ 1704016800000000
   \<and> ToDuckDBValue (sample_host 0) S5_timestamp_cell DPI_NATIVE_TYPE_TIMESTAMP TIMESTAMP_TZ
     = Value_TIMESTAMPTZ 1704049200000000"
  by (simp add: ToDuckDBValue_def sample_host_def S5_timestamp_cell_def zero_buffer_def
      DPI_NATIVE_TYPE_TIMESTAMP_def DPI_NATIVE_TYPE_DOUBLE_def DPI_NATIVE_TYPE_FLOAT_def
      DPI_NATIVE_TYPE_INT64_def DPI_NATIVE_TYPE_UINT64_def DPI_NATIVE_TYPE_BYTES_def
      timestamp_us_def timestamp_tm_def tz_offset_sec_def mktime_fixed_zone_def
      utc_seconds_def days_from_civil_def Let_def)

text \<open>
  C6. \<open>ToDuckDBValue\<close> returns a value on every input. For a cell the driver flags
  null it returns the null of the target type, whatever the native type number is; for a
  native type number it has no case for it returns the null of the target type as well.
\<close>

theorem C6_ToDuckDBValue_typed_null:
  "(isNull data \<longrightarrow>
      ToDuckDBValue h data native_type target_type = Value_NULL target_type)
   \<and> (native_type \<notin> set recognized_native_types \<longrightarrow>
      ToDuckDBValue h data native_type target_type = Value_NULL target_type)
   \<and> IsNull (Value_NULL target_type :: ('d, 'f) Value)
   \<and> Value_type (Value_NULL target_type :: ('d, 'f) Value) = target_type"
  by (simp add: ToDuckDBValue_def recognized_native_types_def Let_def)

theorem C6_ToDuckDBValue_typed_null_witness:
  "isNull null_cell
   \<and> ToDuckDBValue (sample_host 0) null_cell DPI_NATIVE_TYPE_DOUBLE BIGINT = Value_NULL BIGINT
   \<and> ToDuckDBValue (sample_host 0) null_cell DPI_NATIVE_TYPE_LOB BLOB = Value_NULL BLOB
   \<and> 3009 \<notin> set recognized_native_types
   \<and> \<not> isNull (int_cell 7)
   \<and> ToDuckDBValue (sample_host 0) (int_cell 7) 3009 INTEGER = Value_NULL INTEGER"
  using C6_ToDuckDBValue_typed_null
          [of null_cell "sample_host 0" DPI_NATIVE_TYPE_DOUBLE BIGINT]
        C6_ToDuckDBValue_typed_null
          [of null_cell "sample_host 0" DPI_NATIVE_TYPE_LOB BLOB]
        C6_ToDuckDBValue_typed_null [of "int_cell 7" "sample_host 0" 3009 INTEGER]
  by (simp add: null_cell_def int_cell_def recognized_native_types_def
      DPI_NATIVE_TYPE_DOUBLE_def DPI_NATIVE_TYPE_FLOAT_def DPI_NATIVE_TYPE_INT64_def
      DPI_NATIVE_TYPE_UINT64_def DPI_NATIVE_TYPE_BYTES_def DPI_NATIVE_TYPE_TIMESTAMP_def
      DPI_NATIVE_TYPE_INTERVAL_YM_def DPI_NATIVE_TYPE_INTERVAL_DS_def
      DPI_NATIVE_TYPE_BOOLEAN_def DPI_NATIVE_TYPE_LOB_def)

subsection \<open>Filter pushdown\<close>

lemma pushdown_loop_eq:
  "pushdown_loop h cn fs (pushed, remaining) =
     (pushed @ map (ExpressionToSQL h cn) (filter (\<lambda>f. ExpressionToSQL h cn f \<noteq> []) fs),
      remaining @ filter (\<lambda>f. ExpressionToSQL h cn f = []) fs)"
  by (induction fs arbitrary: pushed remaining) (simp_all add: Let_def)

lemma render_emp_id_eq_42:
  \<open>ExpressionToSQL (sample_host 0) [''EMP_ID'', ''NAME''] filter_emp_id_eq_42
     = ''("EMP_ID" = 42)''\<close>
  by (simp add: filter_emp_id_eq_42_def comparison_op_def ColumnToSQL_def ConstantToSQL_def
      to_string_int_def to_string_nat.simps digit_char_def QuoteIdentifier_def)

lemma render_name_like:
  \<open>ExpressionToSQL (sample_host 0) [''EMP_ID'', ''NAME''] filter_name_like
     = ''("NAME" LIKE 'A%')''\<close>
  by (simp add: filter_name_like_def ColumnToSQL_def ConstantToSQL_def QuoteIdentifier_def)

lemma render_lower_name:
  "ExpressionToSQL (sample_host 0) [''EMP_ID'', ''NAME''] filter_lower_name = []"
  by (simp add: filter_lower_name_def)

text \<open>
  C4. \<open>PushdownFilters\<close> partitions every filter list: the filters whose rendering by
  \<open>ExpressionToSQL\<close> is not empty are appended to the filters of the bind data, as
  their renderings and in input order, and leave the residual list; the filters whose
  rendering is empty stay in the residual list in their order. No filter is on both
  sides and none is dropped.
\<close>

theorem C4_PushdownFilters_partitions:
  "PushdownFilters h bd cn fs =
     (bd\<lparr>filters := filters bd
          @ map (ExpressionToSQL h cn) (filter (\<lambda>f. ExpressionToSQL h cn f \<noteq> []) fs)\<rparr>,
      filter (\<lambda>f. ExpressionToSQL h cn f = []) fs)
   \<and> length (filter (\<lambda>f. ExpressionToSQL h cn f \<noteq> []) fs)
       + length (filter (\<lambda>f. ExpressionToSQL h cn f = []) fs) = length fs
   \<and> set (filter (\<lambda>f. ExpressionToSQL h cn f \<noteq> []) fs)
       \<inter> set (filter (\<lambda>f. ExpressionToSQL h cn f = []) fs) = {}
   \<and> set (filter (\<lambda>f. ExpressionToSQL h cn f \<noteq> []) fs)
       \<union> set (filter (\<lambda>f. ExpressionToSQL h cn f = []) fs) = set fs"
proof -
  have a: "PushdownFilters h bd cn fs =
     (bd\<lparr>filters := filters bd
          @ map (ExpressionToSQL h cn) (filter (\<lambda>f. ExpressionToSQL h cn f \<noteq> []) fs)\<rparr>,
      filter (\<lambda>f. ExpressionToSQL h cn f = []) fs)"
    by (simp add: PushdownFilters_def pushdown_loop_eq)
  have b: "length (filter (\<lambda>f. ExpressionToSQL h cn f \<noteq> []) fs)
       + length (filter (\<lambda>f. ExpressionToSQL h cn f = []) fs) = length fs"
    using sum_length_filter_compl [of "\<lambda>f. ExpressionToSQL h cn f \<noteq> []" fs] by simp
  have c: "set (filter (\<lambda>f. ExpressionToSQL h cn f \<noteq> []) fs)
       \<inter> set (filter (\<lambda>f. ExpressionToSQL h cn f = []) fs) = {}"
    by auto
  have d: "set (filter (\<lambda>f. ExpressionToSQL h cn f \<noteq> []) fs)
       \<union> set (filter (\<lambda>f. ExpressionToSQL h cn f = []) fs) = set fs"
    by auto
  show ?thesis using a b c d by simp
qed

theorem C4_PushdownFilters_partitions_witness:
  \<open>PushdownFilters (sample_host 0) S1_bind_data [''EMP_ID'', ''NAME'']
      [filter_emp_id_eq_42, filter_lower_name, filter_name_like]
   = (S1_bind_data\<lparr>filters := [''("EMP_ID" = 42)'', ''("NAME" LIKE 'A%')'']\<rparr>,
      [filter_lower_name])\<close>
  using C4_PushdownFilters_partitions
          [of "sample_host 0" S1_bind_data "[''EMP_ID'', ''NAME'']"
              "[filter_emp_id_eq_42, filter_lower_name, filter_name_like]"]
  by (simp add: render_emp_id_eq_42 render_name_like render_lower_name S1_bind_data_def)

subsection \<open>The metadata reader\<close>

lemma toupper_idem: "toupper (toupper c) = toupper c"
  by (simp add: toupper_def)

lemma ToUpper_idem: "ToUpper (ToUpper s) = ToUpper s"
  by (simp add: ToUpper_def toupper_idem)

lemma columns_loop_eq: "columns_loop h rs acc = acc @ map (column_of_row h) rs"
  by (induction rs arbitrary: acc) simp_all

lemma sample_dictionary_rows:
  "map (column_of_row (sample_host 0))
     (fetched (sample_dictionary (GetColumns_request ''hr'' ''employees''))) = S1_columns"
  by (simp add: sample_dictionary_def GetColumns_request_def GetColumns_sql_def ToUpper_def
      toupper_def column_of_row_def cells_row_def bytes_cell_def double_cell_def null_cell_def
      sample_host_def S1_columns_def)

text \<open>
  C9, as the claim states it, fails: for schema \<open>hr\<close> and table \<open>employees\<close> the text
  that \<open>GetColumns\<close> prepares holds no colon, so no placeholder \<open>:schema\<close> or
  \<open>:table\<close>; it is not the text of the specification, and it is another text for another
  schema and table.
\<close>

theorem C9_GetColumns_bind_variables_counterexample:
  "CHR '':'' \<notin> set (GetColumns_sql ''hr'' ''employees'')
   \<and> GetColumns_sql ''hr'' ''employees'' \<noteq> spec_list_columns_sql
   \<and> GetColumns_sql ''hr'' ''employees'' \<noteq> GetColumns_sql ''sys'' ''dual''"
  by (simp add: GetColumns_sql_def spec_list_columns_sql_def ToUpper_def toupper_def)

lemma toupper_apostrophe: "(toupper c = CHR 0x27) = (c = CHR 0x27)"
  by (simp add: toupper_def)

lemma ToUpper_no_apostrophe:
  assumes "CHR 0x27 \<notin> set s"
  shows "CHR 0x27 \<notin> set (ToUpper s)"
proof
  assume "CHR 0x27 \<in> set (ToUpper s)"
  then obtain c where "c \<in> set s" and "toupper c = CHR 0x27"
    by (auto simp: ToUpper_def)
  then show False
    using assms by (simp add: toupper_apostrophe)
qed

lemma spec_string_literal_plain:
  assumes "CHR 0x27 \<notin> set s"
  shows "spec_string_literal s = [CHR 0x27] @ s @ [CHR 0x27]"
proof -
  have "concat (map (\<lambda>c. if c = CHR 0x27 then [CHR 0x27, CHR 0x27] else [c]) s) = s"
    using assms by (induction s) auto
  then show ?thesis by (simp add: spec_string_literal_def)
qed

text \<open>
  A name with an apostrophe is written into the text as it is, the apostrophe not
  doubled: what follows the apostrophe is read as SQL. The amended claim below leaves
  such names out.
\<close>

lemma GetColumns_sql_apostrophe_not_doubled:
  \<open>GetColumns_sql ''hr'' ''x' or '1'='1''
   = ''SELECT COLUMN_NAME, DATA_TYPE, DATA_PRECISION, DATA_SCALE,        CHAR_LENGTH, NULLABLE ''
       @ ''FROM ALL_TAB_COLUMNS WHERE OWNER = 'HR'   AND TABLE_NAME = 'X' OR '1'='1' ''
       @ ''ORDER BY COLUMN_ID''\<close>
  by (simp add: GetColumns_sql_def ToUpper_def toupper_def)

text \<open>
  C9, amended. For every schema and table whose names hold no apostrophe,
  \<open>GetColumns\<close> prepares the dictionary query on ALL\_TAB\_COLUMNS for COLUMN\_NAME,
  DATA\_TYPE, DATA\_PRECISION, DATA\_SCALE, CHAR\_LENGTH and NULLABLE, ordered by
  COLUMN\_ID, with the upper-cased schema and table written into the text as string
  literals and no bind variable (upper-casing them first gives the same request); when
  the driver prepares and executes it, the result is the list of the fetched rows, each
  mapped with a missing precision to 0, a missing scale to -127 and nullable as
  NULLABLE = 'Y'; an empty result set gives the empty list and no error.
\<close>

theorem C9_GetColumns_inlines_upper_cased_identifiers:
  assumes "prepare_error (db (GetColumns_request schema_name table_name)) = None"
      and "execute_error (db (GetColumns_request schema_name table_name)) = None"
      and "CHR 0x27 \<notin> set schema_name"
      and "CHR 0x27 \<notin> set table_name"
  shows "GetColumns h db schema_name table_name
         = Inr (map (column_of_row h) (fetched (db (GetColumns_request schema_name table_name))))
   \<and> GetColumns_request schema_name table_name
       = \<lparr>sql_text = GetColumns_sql schema_name table_name, fetch_array_size = None\<rparr>
   \<and> GetColumns_sql schema_name table_name
       = ''SELECT COLUMN_NAME, DATA_TYPE, DATA_PRECISION, DATA_SCALE,        CHAR_LENGTH, NULLABLE ''
         @ ''FROM ALL_TAB_COLUMNS WHERE OWNER = '' @ spec_string_literal (ToUpper schema_name)
         @ ''   AND TABLE_NAME = '' @ spec_string_literal (ToUpper table_name)
         @ '' ORDER BY COLUMN_ID''
   \<and> GetColumns_request (ToUpper schema_name) (ToUpper table_name)
       = GetColumns_request schema_name table_name
   \<and> (\<forall>r. (isNull (snd (r 3)) \<longrightarrow> precision (column_of_row h r) = 0)
          \<and> (isNull (snd (r 4)) \<longrightarrow> scale (column_of_row h r) = - 127)
          \<and> nullable (column_of_row h r) = (asBytes (buffer (snd (r 6))) = ''Y''))
   \<and> (fetched (db (GetColumns_request schema_name table_name)) = [] \<longrightarrow>
         GetColumns h db schema_name table_name = Inr [])"
proof -
  have a: "GetColumns h db schema_name table_name
         = Inr (map (column_of_row h) (fetched (db (GetColumns_request schema_name table_name))))"
    using assms(1,2) by (simp add: GetColumns_def columns_loop_eq)
  have b: "GetColumns_request (ToUpper schema_name) (ToUpper table_name)
       = GetColumns_request schema_name table_name"
    by (simp add: GetColumns_request_def GetColumns_sql_def ToUpper_idem)
  have c: "GetColumns_sql schema_name table_name
       = ''SELECT COLUMN_NAME, DATA_TYPE, DATA_PRECISION, DATA_SCALE,        CHAR_LENGTH, NULLABLE ''
         @ ''FROM ALL_TAB_COLUMNS WHERE OWNER = '' @ spec_string_literal (ToUpper schema_name)
         @ ''   AND TABLE_NAME = '' @ spec_string_literal (ToUpper table_name)
         @ '' ORDER BY COLUMN_ID''"
    by (simp add: GetColumns_sql_def
        spec_string_literal_plain [OF ToUpper_no_apostrophe [OF assms(3)]]
        spec_string_literal_plain [OF ToUpper_no_apostrophe [OF assms(4)]])
  have d: "(isNull (snd (r 3)) \<longrightarrow> precision (column_of_row h r) = 0)
          \<and> (isNull (snd (r 4)) \<longrightarrow> scale (column_of_row h r) = - 127)
          \<and> nullable (column_of_row h r) = (asBytes (buffer (snd (r 6))) = ''Y'')" for r
    by (simp add: column_of_row_def)
  have e: "GetColumns_request schema_name table_name
       = \<lparr>sql_text = GetColumns_sql schema_name table_name, fetch_array_size = None\<rparr>"
    by (simp add: GetColumns_request_def)
  show ?thesis
    using a b c d e by simp
qed

theorem C9_GetColumns_inlines_upper_cased_identifiers_witness:
  "prepare_error (sample_dictionary (GetColumns_request ''hr'' ''employees'')) = None
   \<and> execute_error (sample_dictionary (GetColumns_request ''hr'' ''employees'')) = None
   \<and> CHR 0x27 \<notin> set ''hr'' \<and> CHR 0x27 \<notin> set ''employees'' \<and> CHR 0x27 \<notin> set ''payroll''
   \<and> GetColumns (sample_host 0) sample_dictionary ''hr'' ''employees'' = Inr S1_columns
   \<and> fetched (sample_dictionary (GetColumns_request ''hr'' ''payroll'')) = []
   \<and> GetColumns (sample_host 0) sample_dictionary ''hr'' ''payroll'' = Inr []"
proof -
  have p: "prepare_error (sample_dictionary q) = None"
    and e: "execute_error (sample_dictionary q) = None" for q
    by (simp_all add: sample_dictionary_def)
  have q1: "CHR 0x27 \<notin> set ''hr''" and q2: "CHR 0x27 \<notin> set ''employees''"
    and q3: "CHR 0x27 \<notin> set ''payroll''"
    by simp_all
  have f: "fetched (sample_dictionary (GetColumns_request ''hr'' ''payroll'')) = []"
    by (simp add: sample_dictionary_def GetColumns_request_def GetColumns_sql_def ToUpper_def
        toupper_def)
  have a: "GetColumns (sample_host 0) sample_dictionary ''hr'' ''employees'' = Inr S1_columns"
    using C9_GetColumns_inlines_upper_cased_identifiers
            [where db = sample_dictionary and schema_name = "''hr''"
               and table_name = "''employees''" and h = "sample_host 0", OF p e q1 q2]
    by (simp only: sample_dictionary_rows)
  have b: "GetColumns (sample_host 0) sample_dictionary ''hr'' ''payroll'' = Inr []"
    using C9_GetColumns_inlines_upper_cased_identifiers
            [where db = sample_dictionary and schema_name = "''hr''"
               and table_name = "''payroll''" and h = "sample_host 0", OF p e q1 q3] f
    by simp
  show ?thesis using p e q1 q2 q3 f a b by simp
qed

subsection \<open>The executor and the scan\<close>

lemma fetch_loop_refused:
  assumes "\<And>s c. fst (cb s c) = False"
  shows "rc < cs \<Longrightarrow> cs - rc \<le> length rs \<Longrightarrow>
    fetch_loop conv cs cb rs chunk rc s
      = ((fst (snd (cb s (chunk\<lparr>chunk_rows := chunk_rows chunk @ map conv (take (cs - rc) rs),
                                 chunk_count := cs\<rparr>))), cs),
         snd (snd (cb s (chunk\<lparr>chunk_rows := chunk_rows chunk @ map conv (take (cs - rc) rs),
                               chunk_count := cs\<rparr>))))"
proof (induction rs arbitrary: chunk rc)
  case Nil
  then show ?case by simp
next
  case (Cons r rs)
  show ?case
  proof (cases "Suc rc = cs")
    case True
    then have one: "cs - rc = Suc 0" by simp
    obtain c' s' where
      cb: "cb s (chunk\<lparr>chunk_rows := chunk_rows chunk @ [conv r], chunk_count := cs\<rparr>)
             = (False, c', s')"
      using assms [of s "chunk\<lparr>chunk_rows := chunk_rows chunk @ [conv r], chunk_count := cs\<rparr>"]
      by (cases "cb s (chunk\<lparr>chunk_rows := chunk_rows chunk @ [conv r], chunk_count := cs\<rparr>)")
         simp
    show ?thesis using True one cb by (simp add: Let_def)
  next
    case False
    with Cons.prems have lt: "Suc rc < cs" and le: "cs - Suc rc \<le> length rs" by simp_all
    have "cs - rc = Suc (cs - Suc rc)"
      using Cons.prems by arith
    then have tk: "take (cs - rc) (r # rs) = r # take (cs - Suc rc) rs"
      by simp
    show ?thesis
      using False Cons.IH [OF lt le, of "chunk\<lparr>chunk_rows := chunk_rows chunk @ [conv r]\<rparr>"]
      by (simp add: tk Let_def)
  qed
qed

lemma fetch_loop_accepted_exact:
  assumes "\<And>s c. fst (cb s c) = True"
  shows "rc < cs \<Longrightarrow> length rs = cs - rc \<Longrightarrow>
    fetch_loop conv cs cb rs chunk rc s
      = ((empty_chunk, 0),
         snd (snd (cb s (chunk\<lparr>chunk_rows := chunk_rows chunk @ map conv rs,
                               chunk_count := cs\<rparr>))))"
proof (induction rs arbitrary: chunk rc)
  case Nil
  then show ?case by simp
next
  case (Cons r rs)
  show ?case
  proof (cases "Suc rc = cs")
    case True
    then have "cs - rc = Suc 0" by arith
    with Cons.prems have nil: "rs = []" by simp
    obtain c' s' where
      cb: "cb s (chunk\<lparr>chunk_rows := chunk_rows chunk @ [conv r], chunk_count := cs\<rparr>)
             = (True, c', s')"
      using assms [of s "chunk\<lparr>chunk_rows := chunk_rows chunk @ [conv r], chunk_count := cs\<rparr>"]
      by (cases "cb s (chunk\<lparr>chunk_rows := chunk_rows chunk @ [conv r], chunk_count := cs\<rparr>)")
         simp
    show ?thesis using True nil cb by (simp add: Let_def)
  next
    case False
    with Cons.prems have lt: "Suc rc < cs" and le: "length rs = cs - Suc rc" by simp_all
    show ?thesis
      using False Cons.IH [OF lt le, of "chunk\<lparr>chunk_rows := chunk_rows chunk @ [conv r]\<rparr>"]
      by (simp add: Let_def)
  qed
qed

text \<open>
  C3. The claim: within one \<open>ExecuteQuery\<close> call, once the callback has returned false
  no further chunk is delivered to it. The loop stops fetching on a false return, but it
  leaves \<open>row_count\<close> at the chunk size, and the flush after the loop delivers whenever
  \<open>row_count\<close> is above 0. On a result of \<open>STANDARD_VECTOR_SIZE\<close> rows a callback that
  refuses every chunk is called twice; a callback that accepts is called once.
\<close>

theorem C3_ExecuteQuery_delivers_again_after_refusal:
  "ExecuteQuery (sample_host 0) full_chunk_db sql [BIGINT] 10000 refuse_and_count 0 = (Inr (), 2)
   \<and> ExecuteQuery (sample_host 0) full_chunk_db sql [BIGINT] 10000 accept_and_count 0 = (Inr (), 1)"
proof -
  have r: "fst (refuse_and_count s c) = False" for s c by (simp add: refuse_and_count_def)
  have a: "fst (accept_and_count s c) = True" for s c by (simp add: accept_and_count_def)
  have pos: "0 < STANDARD_VECTOR_SIZE" by (simp add: STANDARD_VECTOR_SIZE_def)
  have one: "ExecuteQuery (sample_host 0) full_chunk_db sql [BIGINT] 10000 refuse_and_count 0
       = (Inr (), 2)"
    using fetch_loop_refused [of refuse_and_count 0 STANDARD_VECTOR_SIZE
            "replicate STANDARD_VECTOR_SIZE (cells_row [(DPI_NATIVE_TYPE_INT64, int_cell 7)])"
            "convert_row (sample_host 0) [BIGINT] 1" empty_chunk 0, OF r pos]
    by (simp add: ExecuteQuery_def full_chunk_db_def flush_rest_def refuse_and_count_def pos)
  have two: "ExecuteQuery (sample_host 0) full_chunk_db sql [BIGINT] 10000 accept_and_count 0
       = (Inr (), 1)"
    using fetch_loop_accepted_exact [of accept_and_count 0 STANDARD_VECTOR_SIZE
            "replicate STANDARD_VECTOR_SIZE (cells_row [(DPI_NATIVE_TYPE_INT64, int_cell 7)])"
            "convert_row (sample_host 0) [BIGINT] 1" empty_chunk 0, OF a pos]
    by (simp add: ExecuteQuery_def full_chunk_db_def flush_rest_def accept_and_count_def)
  show ?thesis using one two by simp
qed

text \<open>
  The chunk reaches the callback by reference. On a result of one full chunk the first
  call of the callback of \<open>Scan\<close> moves the rows to the output and leaves the chunk
  destroyed; the flush then sets its cardinality again and delivers it, so the output of
  \<open>Scan\<close> is a chunk of cardinality \<open>STANDARD_VECTOR_SIZE\<close> with no values.
\<close>

lemma Scan_output_after_full_chunk:
  "Scan (sample_host 0) refusing_driver full_chunk_db S1_bind_data
      (OracleConnectionPool_new sample_params 8\<lparr>p_pool := [idle_conn_77]\<rparr>) sample_local
      empty_chunk
     = (Inr (sample_local, \<lparr>chunk_rows = [], chunk_count = STANDARD_VECTOR_SIZE\<rparr>),
        OracleConnectionPool_new sample_params 8)"
proof -
  have r: "fst (scan_callback s c) = False" for s :: "(int, int) DataChunk \<times> bool" and c
    by (simp add: scan_callback_def)
  have pos: "0 < STANDARD_VECTOR_SIZE" by (simp add: STANDARD_VECTOR_SIZE_def)
  have ex: "ExecuteQuery (sample_host 0) full_chunk_db sql tys fs scan_callback (empty_chunk, False)
      = (Inr (), (\<lparr>chunk_rows = [], chunk_count = STANDARD_VECTOR_SIZE\<rparr>, True))" for sql tys fs
    using fetch_loop_refused [of scan_callback 0 STANDARD_VECTOR_SIZE
            "replicate STANDARD_VECTOR_SIZE (cells_row [(DPI_NATIVE_TYPE_INT64, int_cell 7)])"
            "convert_row (sample_host 0) tys 1" empty_chunk "(empty_chunk, False)", OF r pos]
    by (simp add: ExecuteQuery_def full_chunk_db_def flush_rest_def scan_callback_def pos
        empty_chunk_def)
  show ?thesis
    by (simp add: Scan_def ex sample_local_def OracleConnectionPool_new_def Acquire_def)
qed

text \<open>
  C8. The claim: \<open>Scan\<close> reads the fetch size from the bind data and never acquires a
  connection from the pool, so the pool is the same after a \<open>Scan\<close> call. \<open>Scan\<close>
  calls \<open>Acquire\<close> on the pool to read \<open>fetch_size\<close> from the parameters of the
  connection it gets. With one idle connection in the pool, whose parameters say 77, the
  driver is asked with fetch array size 77 and the pool is empty after the call; with an
  empty pool and a driver that refuses new connections the call fails, though the local
  state holds a connection. \<open>InitLocal\<close> is the call that takes the scan's connection
  from the pool.
\<close>

theorem C8_Scan_acquires_from_pool:
  "Scan (sample_host 0) refusing_driver fetch_size_echo_db S1_bind_data
      (OracleConnectionPool_new sample_params 8\<lparr>p_pool := [idle_conn_77]\<rparr>) sample_local
      empty_chunk
     = (Inr (sample_local, \<lparr>chunk_rows = [[Value_INTEGER 77]], chunk_count = 1\<rparr>),
        OracleConnectionPool_new sample_params 8)
   \<and> fst (Scan (sample_host 0) refusing_driver fetch_size_echo_db S1_bind_data
      (OracleConnectionPool_new sample_params 8) sample_local empty_chunk)
     = Inl ''ORA-12541: TNS:no listener''
   \<and> InitLocal refusing_driver S1_bind_data
      (OracleConnectionPool_new sample_params 8\<lparr>p_pool := [sample_conn 0]\<rparr>)
     = (Inr sample_local, OracleConnectionPool_new sample_params 8)"
  by (simp add: Scan_def InitLocal_def sample_local_def OracleConnectionPool_new_def Acquire_def
      refusing_driver_def S1_bind_data_def S1_columns_def ToDuckDBType_def
      number_integer_block_def COLUMN_IDENTIFIER_ROW_ID_def
      ExecuteQuery_def fetch_size_echo_db_def GetParams_def idle_conn_77_def sample_params_def
      STANDARD_VECTOR_SIZE_def flush_rest_def scan_callback_def empty_chunk_def convert_row_def
      cells_row_def int_cell_def ToDuckDBValue_def DPI_NATIVE_TYPE_INT64_def
      DPI_NATIVE_TYPE_DOUBLE_def DPI_NATIVE_TYPE_FLOAT_def Let_def)

end
